theory Spec2Isabelle
  imports Main
begin

section \<open>First Wheels fluid motion controller: the sketch as state transformers\<close>

text \<open>
  The sketch keeps all of its data in global variables and runs \<open>loop()\<close> once per
  control tick.  The globals become the fields of the record \<open>state\<close>; every function
  of the sketch becomes a function from states to states.  The two bytes the sketch hands
  to \<open>mySerial.write\<close> are appended to the field \<open>serialOut\<close>, so the serial stream
  is part of the state and the number of transmissions of a tick can be counted.

  Integers: \<open>int\<close> variables of the sketch are modelled as unbounded integers.  On the
  AVR they have 16 bits; between two ticks the commands lie in 1..127 and 128..255
  (lemma \<open>reachable_wire_range\<close>) and a tick moves them by a few increments before it
  clamps them again, so nothing wraps.  \<open>byte\<close> variables are integers too, and
  every store into a \<open>byte\<close> variable is written with \<open>byte\<close>, the reduction modulo 256
  the conversion to an unsigned 8-bit value performs.  The debug output (\<open>ndebug = 0\<close>),
  the status LED, the delays and the variable \<open>buttonState\<close> (written, and read only by
  the debug output) are left out.  The \<open>float\<close> variable \<open>potValue\<close> only carries the
  integer \<open>analogRead\<close> returned into the next call of \<open>map\<close>; the model passes the
  reading directly.
\<close>

subsection \<open>Adjustable parameters and constants (lines 78-88)\<close>

definition accelFactor :: int where "accelFactor = 2"
definition decelFactor :: int where "decelFactor = 4"
definition trimSens :: int where "trimSens = 6"
definition beginnerModeDelay :: int where "beginnerModeDelay = 15"
definition deadStop1 :: int where "deadStop1 = 64"
definition deadStop2 :: int where "deadStop2 = 192"

text \<open>Conversion of an integer to the type \<open>byte\<close> (unsigned, 8 bits).\<close>

definition byte :: "int \<Rightarrow> int" where
  "byte x = x mod 256"

text \<open>
  \<open>map\<close> is a function of the Arduino core, not of this sketch:
  \<^verbatim>\<open>(x - in_min) * (out_max - out_min) / (in_max - in_min) + out_min\<close> on \<open>long\<close>, where
  \<open>/\<close> truncates towards zero.
\<close>

definition cdiv :: "int \<Rightarrow> int \<Rightarrow> int" where
  "cdiv a b = sgn a * sgn b * (\<bar>a\<bar> div \<bar>b\<bar>)"

definition map_arduino :: "int \<Rightarrow> int \<Rightarrow> int \<Rightarrow> int \<Rightarrow> int \<Rightarrow> int" where
  "map_arduino x in_min in_max out_min out_max =
     cdiv ((x - in_min) * (out_max - out_min)) (in_max - in_min) + out_min"

subsection \<open>The global variables (lines 93-119) and the inputs of one tick\<close>

record state =
  motorControl1 :: int
  motorControl2 :: int
  motorByte1 :: int
  motorByte2 :: int
  rawSpeed1 :: int
  rawSpeed2 :: int
  speedDifference :: int
  direction1 :: int
  direction2 :: int
  buttonPinNumber :: int
  buttonPressedIndicator :: int
  trimAdjustment :: int
  maxFwdSpeed1 :: int
  maxFwdSpeed2 :: int
  maxRevSpeed1 :: int
  maxRevSpeed2 :: int
  beginnerMode :: bool
  serialOut :: "int list"

text \<open>
  What one iteration of \<open>loop()\<close> reads from the hardware: the two potentiometers and,
  for each digital pin, whether \<open>digitalRead\<close> returns \<open>LOW\<close> (button pressed).
\<close>

record inputs =
  analogA0 :: int
  analogA2 :: int
  pinLow :: "int \<Rightarrow> bool"

text \<open>\<open>analogRead\<close> returns a 10-bit value.\<close>

definition validInputs :: "inputs \<Rightarrow> bool" where
  "validInputs inp =
     (0 \<le> analogA0 inp \<and> analogA0 inp \<le> 1023 \<and> 0 \<le> analogA2 inp \<and> analogA2 inp \<le> 1023)"

text \<open>
  The initialisers of the globals, and \<open>setup()\<close> (lines 123-161), which sets
  \<open>beginnerMode\<close> when pin 12 reads \<open>LOW\<close> at power-up.
\<close>

definition initState :: "bool \<Rightarrow> state" where
  "initState pin12Low =
     \<lparr> motorControl1 = deadStop1, motorControl2 = deadStop2,
       motorByte1 = 0, motorByte2 = 0,
       rawSpeed1 = 0, rawSpeed2 = 0, speedDifference = 0,
       direction1 = 1, direction2 = 1,
       buttonPinNumber = 0, buttonPressedIndicator = 0,
       trimAdjustment = 0,
       maxFwdSpeed1 = 0, maxFwdSpeed2 = 0, maxRevSpeed1 = 0, maxRevSpeed2 = 0,
       beginnerMode = pin12Low, serialOut = [] \<rparr>"

subsection \<open>sendCommandFunction (lines 375-492)\<close>

text \<open>Lines 384-402: the four range checks on the persistent command values.\<close>

definition clampCommands :: "state \<Rightarrow> state" where
  "clampCommands s0 =
     (let s1 = (if motorControl1 s0 < 1 then s0\<lparr>motorControl1 := 1\<rparr> else s0);
          s2 = (if motorControl1 s1 > 127 then s1\<lparr>motorControl1 := 127\<rparr> else s1);
          s3 = (if motorControl2 s2 < 128 then s2\<lparr>motorControl2 := 128\<rparr> else s2);
          s4 = (if motorControl2 s3 > 255 then s3\<lparr>motorControl2 := 255\<rparr> else s3)
      in s4)"

text \<open>
  Lines 416-471: conversion to bytes and the trim correction.  \<open>buttonPinNumber\<close> is the
  global the polling loop of \<open>loop()\<close> counts with; \<open>abs\<close> is the Arduino macro.
\<close>

definition trimBlock :: "state \<Rightarrow> state" where
  "trimBlock s0 =
     (let s1 = s0\<lparr>motorByte1 := byte (motorControl1 s0)\<rparr>;
          s2 = s1\<lparr>motorByte2 := byte (motorControl2 s1)\<rparr>
      in if rawSpeed1 s2 > \<bar>trimAdjustment s2\<bar> then
           (if buttonPinNumber s2 = 3 then
              (if trimAdjustment s2 < 0
               then s2\<lparr>motorByte1 := byte (motorControl1 s2 + trimAdjustment s2),
                        motorByte2 := byte (motorControl2 s2)\<rparr>
               else s2\<lparr>motorByte1 := byte (motorControl1 s2),
                        motorByte2 := byte (motorControl2 s2 - trimAdjustment s2)\<rparr>)
            else if buttonPinNumber s2 = 4 then
              (if trimAdjustment s2 < 0
               then s2\<lparr>motorByte1 := byte (motorControl1 s2 - trimAdjustment s2),
                        motorByte2 := byte (motorControl2 s2)\<rparr>
               else s2\<lparr>motorByte1 := byte (motorControl1 s2),
                        motorByte2 := byte (motorControl2 s2 + trimAdjustment s2)\<rparr>)
            else s2)
         else s2)"

text \<open>Lines 484-485: the two writes to the serial line.\<close>

definition serialWrite :: "state \<Rightarrow> state" where
  "serialWrite s = s\<lparr>serialOut := serialOut s @ [motorByte1 s, motorByte2 s]\<rparr>"

definition sendCommandFunction :: "state \<Rightarrow> state" where
  "sendCommandFunction s = serialWrite (trimBlock (clampCommands s))"

subsection \<open>accelerateForward (lines 589-745)\<close>

definition accelerateForward :: "state \<Rightarrow> state" where
  "accelerateForward s0 =
     (let s1 = s0\<lparr>speedDifference :=
                   \<bar>(maxFwdSpeed1 s0 - motorControl1 s0) - (maxFwdSpeed2 s0 - motorControl2 s0)\<bar>\<rparr>;
          s2 = (if speedDifference s1 \<noteq> 0 then
                  (if speedDifference s1 < accelFactor then
                     (if (maxFwdSpeed1 s1 - motorControl1 s1) > (maxFwdSpeed2 s1 - motorControl2 s1)
                      then s1\<lparr>motorControl1 := motorControl1 s1 + speedDifference s1\<rparr>
                      else s1\<lparr>motorControl2 := motorControl2 s1 + speedDifference s1\<rparr>)
                   else s1)
                else s1)
      in if speedDifference s2 = 0 then
           (let a1 = (if motorControl1 s2 < deadStop1
                      then s2\<lparr>motorControl1 := motorControl1 s2 + decelFactor\<rparr>
                      else s2\<lparr>motorControl1 := motorControl1 s2 + accelFactor\<rparr>);
                a2 = (if motorControl1 a1 = deadStop1
                      then a1\<lparr>motorControl1 := motorControl1 a1 + accelFactor\<rparr> else a1);
                a3 = (if motorControl1 a2 > maxFwdSpeed1 a2
                      then a2\<lparr>motorControl1 := maxFwdSpeed1 a2\<rparr> else a2);
                b1 = (if motorControl2 a3 < deadStop2
                      then a3\<lparr>motorControl2 := motorControl2 a3 + decelFactor\<rparr>
                      else a3\<lparr>motorControl2 := motorControl2 a3 + accelFactor\<rparr>);
                b2 = (if motorControl2 b1 = deadStop2
                      then b1\<lparr>motorControl2 := motorControl2 b1 + accelFactor\<rparr> else b1);
                b3 = (if motorControl2 b2 > maxFwdSpeed2 b2
                      then b2\<lparr>motorControl2 := maxFwdSpeed2 b2\<rparr> else b2)
            in b3)
         else if (maxFwdSpeed1 s2 - motorControl1 s2) > (maxFwdSpeed2 s2 - motorControl2 s2) then
           (let a1 = s2\<lparr>motorControl1 := motorControl1 s2 + accelFactor\<rparr>;
                a2 = (if motorControl1 a1 = deadStop1
                      then a1\<lparr>motorControl1 := motorControl1 a1 + accelFactor\<rparr> else a1);
                a3 = (if motorControl1 a2 > maxFwdSpeed1 a2
                      then a2\<lparr>motorControl1 := maxFwdSpeed1 a2\<rparr> else a2)
            in a3)
         else
           (let b1 = s2\<lparr>motorControl2 := motorControl2 s2 + accelFactor\<rparr>;
                b2 = (if motorControl2 b1 = deadStop2
                      then b1\<lparr>motorControl2 := deadStop2 + accelFactor\<rparr> else b1);
                b3 = (if motorControl2 b2 > maxFwdSpeed2 b2
                      then b2\<lparr>motorControl2 := maxFwdSpeed2 b2\<rparr> else b2)
            in b3))"

subsection \<open>accelerateReverse (lines 751-839)\<close>

definition accelerateReverse :: "state \<Rightarrow> state" where
  "accelerateReverse s0 =
     (if (maxFwdSpeed1 s0 - motorControl1 s0) = (maxFwdSpeed2 s0 - motorControl2 s0) then
        (let a1 = (if motorControl1 s0 > deadStop2
                   then s0\<lparr>motorControl1 := motorControl1 s0 - decelFactor\<rparr>
                   else s0\<lparr>motorControl1 := motorControl1 s0 - accelFactor\<rparr>);
             a2 = (if motorControl1 a1 = deadStop1
                   then a1\<lparr>motorControl1 := deadStop1 - accelFactor\<rparr> else a1);
             a3 = (if motorControl1 a2 < maxRevSpeed1 a2
                   then a2\<lparr>motorControl1 := maxRevSpeed1 a2\<rparr> else a2);
             b1 = (if motorControl2 a3 > deadStop2
                   then a3\<lparr>motorControl2 := motorControl2 a3 - decelFactor\<rparr>
                   else a3\<lparr>motorControl2 := motorControl2 a3 - accelFactor\<rparr>);
             b2 = (if motorControl2 b1 = deadStop2
                   then b1\<lparr>motorControl2 := deadStop2 - accelFactor\<rparr> else b1);
             b3 = (if motorControl2 b2 < maxRevSpeed2 b2
                   then b2\<lparr>motorControl2 := maxRevSpeed2 b2\<rparr> else b2)
         in b3)
      else if (maxFwdSpeed1 s0 - motorControl1 s0) < (maxFwdSpeed2 s0 - motorControl2 s0) then
        (let a1 = s0\<lparr>motorControl1 := motorControl1 s0 - accelFactor\<rparr>;
             a2 = (if motorControl1 a1 = deadStop1
                   then a1\<lparr>motorControl1 := deadStop1 - accelFactor\<rparr> else a1);
             a3 = (if motorControl1 a2 < maxRevSpeed1 a2
                   then a2\<lparr>motorControl1 := maxRevSpeed1 a2\<rparr> else a2)
         in a3)
      else
        (let b1 = s0\<lparr>motorControl2 := motorControl2 s0 - accelFactor\<rparr>;
             b2 = (if motorControl2 b1 = deadStop2
                   then b1\<lparr>motorControl2 := deadStop2 - accelFactor\<rparr> else b1);
             b3 = (if motorControl2 b2 < maxRevSpeed2 b2
                   then b2\<lparr>motorControl2 := maxRevSpeed2 b2\<rparr> else b2)
         in b3))"

subsection \<open>leftButtonPressed (lines 845-1004)\<close>

text \<open>
  Every branch of the source that changes a command ends with \<open>return\<close>; the chain of
  \<open>if\<close>s is therefore written as a chain of \<open>else if\<close>s.  The last alternative of each
  chain is the fall-through to the end of the function, which changes nothing.
\<close>

definition leftButtonPressed :: "state \<Rightarrow> state" where
  "leftButtonPressed s0 =
     (if rawSpeed1 s0 = rawSpeed2 s0 then
        (if direction1 s0 \<noteq> direction2 s0 \<or> rawSpeed1 s0 = 0 then
           (let a1 = s0\<lparr>motorControl1 := motorControl1 s0 - accelFactor\<rparr>;
                a2 = a1\<lparr>motorControl2 := motorControl2 a1 + accelFactor\<rparr>;
                a3 = (if motorControl1 a2 = deadStop1
                      then a2\<lparr>motorControl1 := deadStop1 - accelFactor\<rparr> else a2);
                a4 = (if motorControl1 a3 < maxRevSpeed1 a3
                      then a3\<lparr>motorControl1 := maxRevSpeed1 a3\<rparr> else a3);
                a5 = (if motorControl2 a4 = deadStop2
                      then a4\<lparr>motorControl2 := deadStop2 + accelFactor\<rparr> else a4);
                a6 = (if motorControl2 a5 > maxFwdSpeed2 a5
                      then a5\<lparr>motorControl2 := maxFwdSpeed2 a5\<rparr> else a5)
            in a6)
         else if direction1 s0 = direction2 s0 then
           (if direction1 s0 = 1 then
              (let a1 = s0\<lparr>motorControl1 := motorControl1 s0 - decelFactor\<rparr>;
                   a2 = (if motorControl1 a1 = deadStop1
                         then a1\<lparr>motorControl1 := deadStop1 - decelFactor\<rparr> else a1);
                   a3 = (if motorControl1 a2 < maxRevSpeed1 a2
                         then a2\<lparr>motorControl1 := maxRevSpeed1 a2\<rparr> else a2)
               in a3)
            else
              (let b1 = s0\<lparr>motorControl2 := motorControl2 s0 + decelFactor\<rparr>;
                   b2 = (if motorControl2 b1 = deadStop2
                         then b1\<lparr>motorControl2 := deadStop2 + decelFactor\<rparr> else b1);
                   b3 = (if motorControl2 b2 > maxFwdSpeed2 b2
                         then b2\<lparr>motorControl2 := maxFwdSpeed2 b2\<rparr> else b2)
               in b3))
         else if direction1 s0 \<noteq> direction2 s0 then
           (if motorControl2 s0 < maxFwdSpeed2 s0 then
              (let b1 = s0\<lparr>motorControl2 := motorControl2 s0 + accelFactor\<rparr>;
                   b2 = (if motorControl2 b1 = deadStop2
                         then b1\<lparr>motorControl2 := deadStop2 + accelFactor\<rparr> else b1);
                   b3 = (if motorControl2 b2 > maxFwdSpeed2 b2
                         then b2\<lparr>motorControl2 := maxFwdSpeed2 b2\<rparr> else b2)
               in b3)
            else s0)
         else s0)
      else if rawSpeed1 s0 < rawSpeed2 s0 then
        (if motorControl1 s0 > maxRevSpeed1 s0 then
           (let a1 = s0\<lparr>motorControl1 := motorControl1 s0 - accelFactor\<rparr>;
                a2 = (if motorControl1 a1 = deadStop1
                      then a1\<lparr>motorControl1 := deadStop1 - accelFactor\<rparr> else a1);
                a3 = (if motorControl1 a2 < maxRevSpeed1 a2
                      then a2\<lparr>motorControl1 := maxRevSpeed1 a2\<rparr> else a2)
            in a3)
         else s0)
      else if rawSpeed1 s0 > rawSpeed2 s0 then
        (if motorControl2 s0 < maxFwdSpeed2 s0 then
           (let b1 = s0\<lparr>motorControl2 := motorControl2 s0 + accelFactor\<rparr>;
                b2 = (if motorControl2 b1 = deadStop2
                      then b1\<lparr>motorControl2 := deadStop2 + accelFactor\<rparr> else b1);
                b3 = (if motorControl2 b2 > maxFwdSpeed2 b2
                      then b2\<lparr>motorControl2 := maxRevSpeed2 b2\<rparr> else b2)
            in b3)
         else s0)
      else s0)"

subsection \<open>rightButtonPressed (lines 1009-1134)\<close>

text \<open>
  Here three guarded blocks of the source have no \<open>return\<close> when their guard fails
  (lines 1070, 1094 and 1112); control then reaches the end of the function through
  tests that are false, and the state is unchanged.
\<close>

definition rightButtonPressed :: "state \<Rightarrow> state" where
  "rightButtonPressed s0 =
     (if rawSpeed1 s0 = rawSpeed2 s0 then
        (if direction1 s0 \<noteq> direction2 s0 \<or> rawSpeed1 s0 = 0 then
           (if motorControl1 s0 < maxFwdSpeed1 s0 then
              (let a1 = s0\<lparr>motorControl1 := motorControl1 s0 + accelFactor\<rparr>;
                   a2 = a1\<lparr>motorControl2 := motorControl2 a1 - accelFactor\<rparr>;
                   a3 = (if motorControl1 a2 = 0 \<or> motorControl1 a2 = deadStop1
                         then a2\<lparr>motorControl1 := deadStop1 + accelFactor\<rparr> else a2);
                   a4 = (if motorControl2 a3 = 0 \<or> motorControl2 a3 = deadStop2
                         then a3\<lparr>motorControl2 := deadStop2 - accelFactor\<rparr> else a3)
               in a4)
            else s0)
         else if direction1 s0 = direction2 s0 then
           (if direction1 s0 = 0 then
              (if motorControl1 s0 < maxFwdSpeed1 s0 then
                 (let a1 = s0\<lparr>motorControl1 := motorControl1 s0 + accelFactor\<rparr>;
                      a2 = (if motorControl1 a1 = 0 \<or> motorControl1 a1 = deadStop1
                            then a1\<lparr>motorControl1 := deadStop1 + accelFactor\<rparr> else a1)
                  in a2)
               else s0)
            else
              (if motorControl2 s0 > maxRevSpeed2 s0 then
                 (let b1 = s0\<lparr>motorControl2 := motorControl2 s0 - accelFactor\<rparr>;
                      b2 = (if motorControl2 b1 = 0 \<or> motorControl2 b1 = deadStop2
                            then b1\<lparr>motorControl2 := deadStop2 - accelFactor\<rparr> else b1);
                      b3 = (if motorControl2 b2 < maxRevSpeed2 b2
                            then b2\<lparr>motorControl2 := maxRevSpeed2 b2\<rparr> else b2)
                  in b3)
               else s0))
         else s0)
      else if rawSpeed1 s0 < rawSpeed2 s0 then
        (if motorControl1 s0 < maxFwdSpeed1 s0 then
           (let a1 = s0\<lparr>motorControl1 := motorControl1 s0 + accelFactor\<rparr>;
                a2 = (if motorControl1 a1 = 0 \<or> motorControl1 a1 = deadStop1
                      then a1\<lparr>motorControl1 := deadStop1 + accelFactor\<rparr> else a1)
            in a2)
         else s0)
      else if rawSpeed1 s0 > rawSpeed2 s0 then
        (if motorControl2 s0 > maxRevSpeed2 s0 then
           (let b1 = s0\<lparr>motorControl2 := motorControl2 s0 - accelFactor\<rparr>;
                b2 = (if motorControl2 b1 = deadStop2
                      then b1\<lparr>motorControl2 := deadStop2 - accelFactor\<rparr> else b1);
                b3 = (if motorControl2 b2 < maxRevSpeed2 b2
                      then b2\<lparr>motorControl2 := maxRevSpeed2 b2\<rparr> else b2)
            in b3)
         else s0)
      else s0)"

subsection \<open>decelerateFunction (lines 1137-1177)\<close>

definition decelerateFunction :: "state \<Rightarrow> state" where
  "decelerateFunction s0 =
     (let s1 = (if motorControl1 s0 > deadStop1 then
                  (let a = s0\<lparr>motorControl1 := motorControl1 s0 - decelFactor\<rparr>
                   in if motorControl1 a < deadStop1 then a\<lparr>motorControl1 := deadStop1\<rparr> else a)
                else s0);
          s2 = (if motorControl1 s1 < deadStop1 then
                  (let a = s1\<lparr>motorControl1 := motorControl1 s1 + decelFactor\<rparr>
                   in if motorControl1 a > deadStop1 then a\<lparr>motorControl1 := deadStop1\<rparr> else a)
                else s1);
          s3 = (if motorControl2 s2 > deadStop2 then
                  (let b = s2\<lparr>motorControl2 := motorControl2 s2 - decelFactor\<rparr>
                   in if motorControl2 b < deadStop2 then b\<lparr>motorControl2 := deadStop2\<rparr> else b)
                else s2);
          s4 = (if motorControl2 s3 < deadStop2 then
                  (let b = s3\<lparr>motorControl2 := motorControl2 s3 + decelFactor\<rparr>
                   in if motorControl2 b > deadStop2 then b\<lparr>motorControl2 := deadStop2\<rparr> else b)
                else s3)
      in s4)"

subsection \<open>buttonPressedFunction (lines 498-584)\<close>

text \<open>
  The parameter shadows the global \<open>buttonPinNumber\<close>; \<open>loop()\<close> passes the global, so
  both hold the same pin.  \<open>motionUpdate\<close> is the part before the call of
  \<open>sendCommandFunction\<close> (lines 509-573): the update of the two persistent commands.
\<close>

definition motionUpdate :: "int \<Rightarrow> state \<Rightarrow> state" where
  "motionUpdate pin s0 =
     (let s1 = (if motorControl1 s0 = 0 then s0\<lparr>motorControl1 := deadStop1\<rparr> else s0);
          s2 = (if motorControl2 s1 = 0 then s1\<lparr>motorControl2 := deadStop2\<rparr> else s1)
      in if pin = 2 then s2\<lparr>motorControl1 := deadStop1, motorControl2 := deadStop2\<rparr>
         else if pin = 3 then accelerateForward s2
         else if pin = 4 then accelerateReverse s2
         else if pin = 5 then leftButtonPressed s2
         else if pin = 6 then rightButtonPressed s2
         else s2)"

definition buttonPressedFunction :: "int \<Rightarrow> state \<Rightarrow> state" where
  "buttonPressedFunction pin s = sendCommandFunction (motionUpdate pin s)"

subsection \<open>loop (lines 163-369)\<close>

text \<open>Lines 166-180: governor bounds and trim from the two potentiometers.\<close>

definition readPots :: "inputs \<Rightarrow> state \<Rightarrow> state" where
  "readPots inp s =
     s\<lparr>maxRevSpeed1 := byte (map_arduino (analogA0 inp) 0 1023 63 1),
       maxFwdSpeed1 := byte (map_arduino (analogA0 inp) 0 1023 65 127),
       maxRevSpeed2 := byte (map_arduino (analogA0 inp) 0 1023 191 128),
       maxFwdSpeed2 := byte (map_arduino (analogA0 inp) 0 1023 193 255),
       trimAdjustment := map_arduino (analogA2 inp) 0 1023 (-1 * trimSens) trimSens\<rparr>"

text \<open>Lines 201-210: the latch counter of beginner mode.\<close>

definition latchUpdate :: "state \<Rightarrow> state" where
  "latchUpdate s0 =
     (let s1 = (if beginnerMode s0 = False then s0\<lparr>buttonPressedIndicator := 0\<rparr> else s0);
          s2 = (if beginnerMode s1 = True \<and> buttonPressedIndicator s1 > 0
                then s1\<lparr>buttonPressedIndicator := byte (buttonPressedIndicator s1 - 1)\<rparr>
                else s1)
      in s2)"

text \<open>
  Lines 219-232 and 239-252: the two polling loops.  They differ in one statement, the
  value given to \<open>buttonPressedIndicator\<close> (line 224 against line 244), which the first
  argument selects.  The loop counter is the global \<open>buttonPinNumber\<close>; a pressed
  button ends the loop (\<open>break\<close>).
\<close>

function pollLoop :: "bool \<Rightarrow> inputs \<Rightarrow> state \<Rightarrow> state" where
  "pollLoop beginner inp s =
     (if buttonPinNumber s \<le> 6 then
        (if pinLow inp (buttonPinNumber s) then
           buttonPressedFunction (buttonPinNumber s)
             (s\<lparr>buttonPressedIndicator :=
                  (if beginner then beginnerModeDelay
                   else byte (buttonPressedIndicator s + 1))\<rparr>)
         else pollLoop beginner inp (s\<lparr>buttonPinNumber := byte (buttonPinNumber s + 1)\<rparr>))
      else s)"
  by pat_completeness auto
termination
proof (relation "measure (\<lambda>(b, inp, s). nat (7 - buttonPinNumber s))")
  show "wf (measure (\<lambda>(b, inp, s). nat (7 - buttonPinNumber s)))"
    by simp
next
  fix beginner :: bool and inp :: inputs and s :: state
  assume le: "buttonPinNumber s \<le> 6"
  have "buttonPinNumber s < byte (buttonPinNumber s + 1)"
  proof (cases "buttonPinNumber s < 0")
    case True
    have "0 \<le> (buttonPinNumber s + 1) mod 256"
      by simp
    with True show ?thesis
      by (simp add: byte_def)
  next
    case False
    with le have "(buttonPinNumber s + 1) mod 256 = buttonPinNumber s + 1"
      by simp
    then show ?thesis
      by (simp add: byte_def)
  qed
  with le
  show "((beginner, inp, s\<lparr>buttonPinNumber := byte (buttonPinNumber s + 1)\<rparr>), (beginner, inp, s))
          \<in> measure (\<lambda>(b, inp, s). nat (7 - buttonPinNumber s))"
    by simp
qed

definition pollButtons :: "inputs \<Rightarrow> state \<Rightarrow> state" where
  "pollButtons inp s0 =
     (let s1 = (if beginnerMode s0 = False
                then pollLoop False inp (s0\<lparr>buttonPinNumber := 2\<rparr>) else s0);
          s2 = (if beginnerMode s1 = True
                then pollLoop True inp (s1\<lparr>buttonPinNumber := 2\<rparr>) else s1)
      in s2)"

text \<open>Lines 261-318: the derived magnitudes and directions.\<close>

definition deriveSpeeds :: "state \<Rightarrow> state" where
  "deriveSpeeds s =
     (if (motorControl1 s = 0 \<or> motorControl1 s = deadStop1) \<and>
         (motorControl2 s = 0 \<or> motorControl2 s = deadStop2)
      then s\<lparr>rawSpeed1 := 0, rawSpeed2 := 0\<rparr>
      else
        (let s1 = s\<lparr>rawSpeed1 := byte \<bar>deadStop1 - motorControl1 s\<bar>\<rparr>;
             s2 = s1\<lparr>rawSpeed2 := byte \<bar>deadStop2 - motorControl2 s1\<bar>\<rparr>;
             s3 = (if motorControl1 s2 \<ge> deadStop1
                   then s2\<lparr>direction1 := 49\<rparr> else s2\<lparr>direction1 := 48\<rparr>);
             s4 = (if motorControl2 s3 \<ge> deadStop2
                   then s3\<lparr>direction2 := 49\<rparr> else s3\<lparr>direction2 := 0\<rparr>)
         in s4))"

text \<open>Lines 331-352: no button counted, so decelerate (or stay stopped) and transmit.\<close>

definition idleBlock :: "state \<Rightarrow> state" where
  "idleBlock s =
     (if buttonPressedIndicator s = 0 then
        sendCommandFunction
          (if (motorControl1 s = 0 \<or> motorControl1 s = deadStop1) \<and>
              (motorControl2 s = 0 \<or> motorControl2 s = deadStop2)
           then s\<lparr>motorControl1 := deadStop1, motorControl2 := deadStop2\<rparr>
           else decelerateFunction s)
      else s)"

definition loop :: "inputs \<Rightarrow> state \<Rightarrow> state" where
  "loop inp s = idleBlock (deriveSpeeds (pollButtons inp (latchUpdate (readPots inp s))))"

text \<open>Several ticks in a row, one input record per tick.\<close>

fun run :: "inputs list \<Rightarrow> state \<Rightarrow> state" where
  "run [] s = s"
| "run (inp # inps) s = run inps (loop inp s)"

text \<open>
  The states the sketch can be in between two iterations of \<open>loop()\<close>: the state
  \<open>setup()\<close> leaves, and whatever one more tick makes of such a state.
\<close>

inductive reachable :: "state \<Rightarrow> bool" where
  init: "reachable (initState pin12Low)"
| step: "reachable s \<Longrightarrow> validInputs inp \<Longrightarrow> reachable (loop inp s)"

subsection \<open>Notions used to state the properties\<close>

text \<open>
  The request of a tick: the pin at which the polling loop stops, that is the lowest
  pressed pin among 2 (emergency stop), 3 (forward), 4 (reverse), 5 (left), 6 (right).
  Lemma \<open>pollButtons_requested\<close> shows that this is what the polling loops compute.
\<close>

definition requested :: "inputs \<Rightarrow> int option" where
  "requested inp =
     (if pinLow inp 2 then Some 2
      else if pinLow inp 3 then Some 3
      else if pinLow inp 4 then Some 4
      else if pinLow inp 5 then Some 5
      else if pinLow inp 6 then Some 6
      else None)"

text \<open>Sample inputs: one button held, or none, at given potentiometer readings.\<close>

definition pressing :: "int \<Rightarrow> int \<Rightarrow> int \<Rightarrow> inputs" where
  "pressing a0 a2 pin = \<lparr>analogA0 = a0, analogA2 = a2, pinLow = (\<lambda>p. p = pin)\<rparr>"

definition released :: "int \<Rightarrow> int \<Rightarrow> inputs" where
  "released a0 a2 = \<lparr>analogA0 = a0, analogA2 = a2, pinLow = (\<lambda>p. False)\<rparr>"

text \<open>The ranges of the wire protocol: 1..127 for motor A, 128..255 for motor B.\<close>

definition wireRange :: "state \<Rightarrow> bool" where
  "wireRange s =
     (1 \<le> motorControl1 s \<and> motorControl1 s \<le> 127 \<and>
      128 \<le> motorControl2 s \<and> motorControl2 s \<le> 255)"

text \<open>
  One step towards a centre \<open>c\<close> by \<open>d\<close>, stopping at the centre: how the specification
  describes deceleration.
\<close>

definition stepToward :: "int \<Rightarrow> int \<Rightarrow> int \<Rightarrow> int" where
  "stepToward c d x = (if x > c then max c (x - d) else if x < c then min c (x + d) else x)"

text \<open>
  The governor bounds lie strictly around the centres (\<open>readPots\<close> establishes this for
  every potentiometer reading, lemma \<open>readPots_bounds\<close>), and the relation between the
  commands before and after an update that C3 is about: each command is unchanged or
  off its centre.
\<close>

definition strictBounds :: "state \<Rightarrow> bool" where
  "strictBounds s =
     (maxRevSpeed1 s < deadStop1 \<and> deadStop1 < maxFwdSpeed1 s \<and>
      maxRevSpeed2 s < deadStop2 \<and> deadStop2 < maxFwdSpeed2 s)"


text \<open>
  The state in which \<open>buttonPressedFunction\<close> is called in a tick whose request is pin
  \<open>p\<close>: potentiometers read, latch counter set, loop counter at \<open>p\<close> (lemma
  \<open>loop_pollState\<close>).
\<close>

definition pollState :: "inputs \<Rightarrow> int \<Rightarrow> state \<Rightarrow> state" where
  "pollState inp p s =
     (latchUpdate (readPots inp s))
       \<lparr>buttonPinNumber := p,
        buttonPressedIndicator := (if beginnerMode s then beginnerModeDelay else 1)\<rparr>"

text \<open>
  When both commands are below their centres, the derived directions are the character
  \<open>'0'\<close> (48) for motor A and the integer 0 for motor B.
\<close>

definition reverseDirs :: "state \<Rightarrow> bool" where
  "reverseDirs s =
     (motorControl1 s < deadStop1 \<and> motorControl2 s < deadStop2 \<longrightarrow>
        direction1 s = 48 \<and> direction2 s = 0)"

text \<open>
  No latched request is pending: outside beginner mode always, in beginner mode when the
  latch counter is 0 or about to reach 0.
\<close>

definition idleMode :: "state \<Rightarrow> bool" where
  "idleMode s = (beginnerMode s \<longrightarrow> buttonPressedIndicator s = 0 \<or> buttonPressedIndicator s = 1)"

text \<open>
  One step of a ramp.  A command \<open>x\<close> is moved by the increment \<open>d\<close>, upwards or
  downwards; when that lands exactly on the centre \<open>c\<close>, one more increment \<open>e\<close>
  is added in the same direction (the dead-spot skip written after each step of the
  sketch, for instance lines 646-654); \<open>rampUp\<close> and \<open>rampDown\<close> then clamp to the
  bound in the direction of the step.
\<close>

definition skipUp :: "int \<Rightarrow> int \<Rightarrow> int \<Rightarrow> int \<Rightarrow> int" where
  "skipUp c d e x = (if x + d = c then c + e else x + d)"

definition skipDown :: "int \<Rightarrow> int \<Rightarrow> int \<Rightarrow> int \<Rightarrow> int" where
  "skipDown c d e x = (if x - d = c then c - e else x - d)"

definition rampUp :: "int \<Rightarrow> int \<Rightarrow> int \<Rightarrow> int \<Rightarrow> int \<Rightarrow> int" where
  "rampUp c d e hi x = min hi (skipUp c d e x)"

definition rampDown :: "int \<Rightarrow> int \<Rightarrow> int \<Rightarrow> int \<Rightarrow> int \<Rightarrow> int" where
  "rampDown c d e lo x = max lo (skipDown c d e x)"

text \<open>
  The update of the commands in a tick without a request, lines 331-352 without the
  call of \<open>sendCommandFunction\<close> that ends either branch (lemma
  \<open>idleBlock_idleUpdate\<close>), and the state in which the speeds are derived in such a
  tick: potentiometers read, latch counter updated, loop counter run to its end at 7.
\<close>

definition idleUpdate :: "state \<Rightarrow> state" where
  "idleUpdate s =
     (if (motorControl1 s = 0 \<or> motorControl1 s = deadStop1) \<and>
         (motorControl2 s = 0 \<or> motorControl2 s = deadStop2)
      then s\<lparr>motorControl1 := deadStop1, motorControl2 := deadStop2\<rparr>
      else decelerateFunction s)"

definition unpolledState :: "inputs \<Rightarrow> state \<Rightarrow> state" where
  "unpolledState inp s = (latchUpdate (readPots inp s))\<lparr>buttonPinNumber := 7\<rparr>"


subsection \<open>The blocks of the four motion functions, by name\<close>

text \<open>
  Each motion function is a decision tree whose leaves are short blocks of assignments.
  The blocks are repeated here under names, with their lines, so that properties can be
  stated and proved per block; the lemmas \<open>accelerateForward_blocks\<close>,
  \<open>accelerateReverse_blocks\<close>, \<open>leftButtonPressed_blocks\<close> and
  \<open>rightButtonPressed_blocks\<close> show that the functions defined above are exactly the
  decision trees over these blocks.
\<close>

text \<open>\<open>accelerateForward\<close>: lines 595-627, 638-692, 716-724 and 734-742.\<close>

definition fwdSnap :: "state \<Rightarrow> state" where
  "fwdSnap s0 =
     (let s1 = s0\<lparr>speedDifference :=
                   \<bar>(maxFwdSpeed1 s0 - motorControl1 s0) - (maxFwdSpeed2 s0 - motorControl2 s0)\<bar>\<rparr>
      in if speedDifference s1 \<noteq> 0 then
           (if speedDifference s1 < accelFactor then
              (if (maxFwdSpeed1 s1 - motorControl1 s1) > (maxFwdSpeed2 s1 - motorControl2 s1)
               then s1\<lparr>motorControl1 := motorControl1 s1 + speedDifference s1\<rparr>
               else s1\<lparr>motorControl2 := motorControl2 s1 + speedDifference s1\<rparr>)
            else s1)
         else s1)"

definition fwdBoth :: "state \<Rightarrow> state" where
  "fwdBoth s2 =
     (let a1 = (if motorControl1 s2 < deadStop1
                then s2\<lparr>motorControl1 := motorControl1 s2 + decelFactor\<rparr>
                else s2\<lparr>motorControl1 := motorControl1 s2 + accelFactor\<rparr>);
          a2 = (if motorControl1 a1 = deadStop1
                then a1\<lparr>motorControl1 := motorControl1 a1 + accelFactor\<rparr> else a1);
          a3 = (if motorControl1 a2 > maxFwdSpeed1 a2
                then a2\<lparr>motorControl1 := maxFwdSpeed1 a2\<rparr> else a2);
          b1 = (if motorControl2 a3 < deadStop2
                then a3\<lparr>motorControl2 := motorControl2 a3 + decelFactor\<rparr>
                else a3\<lparr>motorControl2 := motorControl2 a3 + accelFactor\<rparr>);
          b2 = (if motorControl2 b1 = deadStop2
                then b1\<lparr>motorControl2 := motorControl2 b1 + accelFactor\<rparr> else b1);
          b3 = (if motorControl2 b2 > maxFwdSpeed2 b2
                then b2\<lparr>motorControl2 := maxFwdSpeed2 b2\<rparr> else b2)
      in b3)"

definition fwdMotor1 :: "state \<Rightarrow> state" where
  "fwdMotor1 s2 =
     (let a1 = s2\<lparr>motorControl1 := motorControl1 s2 + accelFactor\<rparr>;
          a2 = (if motorControl1 a1 = deadStop1
                then a1\<lparr>motorControl1 := motorControl1 a1 + accelFactor\<rparr> else a1);
          a3 = (if motorControl1 a2 > maxFwdSpeed1 a2
                then a2\<lparr>motorControl1 := maxFwdSpeed1 a2\<rparr> else a2)
      in a3)"

definition fwdMotor2 :: "state \<Rightarrow> state" where
  "fwdMotor2 s2 =
     (let b1 = s2\<lparr>motorControl2 := motorControl2 s2 + accelFactor\<rparr>;
          b2 = (if motorControl2 b1 = deadStop2
                then b1\<lparr>motorControl2 := deadStop2 + accelFactor\<rparr> else b1);
          b3 = (if motorControl2 b2 > maxFwdSpeed2 b2
                then b2\<lparr>motorControl2 := maxFwdSpeed2 b2\<rparr> else b2)
      in b3)"

text \<open>\<open>accelerateReverse\<close>: lines 764-800, 813-822 and 827-836.\<close>

definition revBoth :: "state \<Rightarrow> state" where
  "revBoth s0 =
     (let a1 = (if motorControl1 s0 > deadStop2
                then s0\<lparr>motorControl1 := motorControl1 s0 - decelFactor\<rparr>
                else s0\<lparr>motorControl1 := motorControl1 s0 - accelFactor\<rparr>);
          a2 = (if motorControl1 a1 = deadStop1
                then a1\<lparr>motorControl1 := deadStop1 - accelFactor\<rparr> else a1);
          a3 = (if motorControl1 a2 < maxRevSpeed1 a2
                then a2\<lparr>motorControl1 := maxRevSpeed1 a2\<rparr> else a2);
          b1 = (if motorControl2 a3 > deadStop2
                then a3\<lparr>motorControl2 := motorControl2 a3 - decelFactor\<rparr>
                else a3\<lparr>motorControl2 := motorControl2 a3 - accelFactor\<rparr>);
          b2 = (if motorControl2 b1 = deadStop2
                then b1\<lparr>motorControl2 := deadStop2 - accelFactor\<rparr> else b1);
          b3 = (if motorControl2 b2 < maxRevSpeed2 b2
                then b2\<lparr>motorControl2 := maxRevSpeed2 b2\<rparr> else b2)
      in b3)"

definition revMotor1 :: "state \<Rightarrow> state" where
  "revMotor1 s0 =
     (let a1 = s0\<lparr>motorControl1 := motorControl1 s0 - accelFactor\<rparr>;
          a2 = (if motorControl1 a1 = deadStop1
                then a1\<lparr>motorControl1 := deadStop1 - accelFactor\<rparr> else a1);
          a3 = (if motorControl1 a2 < maxRevSpeed1 a2
                then a2\<lparr>motorControl1 := maxRevSpeed1 a2\<rparr> else a2)
      in a3)"

definition revMotor2 :: "state \<Rightarrow> state" where
  "revMotor2 s0 =
     (let b1 = s0\<lparr>motorControl2 := motorControl2 s0 - accelFactor\<rparr>;
          b2 = (if motorControl2 b1 = deadStop2
                then b1\<lparr>motorControl2 := deadStop2 - accelFactor\<rparr> else b1);
          b3 = (if motorControl2 b2 < maxRevSpeed2 b2
                then b2\<lparr>motorControl2 := maxRevSpeed2 b2\<rparr> else b2)
      in b3)"

text \<open>
  \<open>leftButtonPressed\<close>: lines 875-896 (\<open>leftSpin\<close>, directions differ or at rest),
  911-919 and 924-932 (\<open>leftCurveA\<close>, \<open>leftCurveB\<close>, directions equal: moving straight),
  941-949, 964-972 and 986-994.
\<close>

definition leftSpin :: "state \<Rightarrow> state" where
  "leftSpin s0 =
     (let a1 = s0\<lparr>motorControl1 := motorControl1 s0 - accelFactor\<rparr>;
          a2 = a1\<lparr>motorControl2 := motorControl2 a1 + accelFactor\<rparr>;
          a3 = (if motorControl1 a2 = deadStop1
                then a2\<lparr>motorControl1 := deadStop1 - accelFactor\<rparr> else a2);
          a4 = (if motorControl1 a3 < maxRevSpeed1 a3
                then a3\<lparr>motorControl1 := maxRevSpeed1 a3\<rparr> else a3);
          a5 = (if motorControl2 a4 = deadStop2
                then a4\<lparr>motorControl2 := deadStop2 + accelFactor\<rparr> else a4);
          a6 = (if motorControl2 a5 > maxFwdSpeed2 a5
                then a5\<lparr>motorControl2 := maxFwdSpeed2 a5\<rparr> else a5)
      in a6)"

definition leftCurveA :: "state \<Rightarrow> state" where
  "leftCurveA s0 =
     (let a1 = s0\<lparr>motorControl1 := motorControl1 s0 - decelFactor\<rparr>;
          a2 = (if motorControl1 a1 = deadStop1
                then a1\<lparr>motorControl1 := deadStop1 - decelFactor\<rparr> else a1);
          a3 = (if motorControl1 a2 < maxRevSpeed1 a2
                then a2\<lparr>motorControl1 := maxRevSpeed1 a2\<rparr> else a2)
      in a3)"

definition leftCurveB :: "state \<Rightarrow> state" where
  "leftCurveB s0 =
     (let b1 = s0\<lparr>motorControl2 := motorControl2 s0 + decelFactor\<rparr>;
          b2 = (if motorControl2 b1 = deadStop2
                then b1\<lparr>motorControl2 := deadStop2 + decelFactor\<rparr> else b1);
          b3 = (if motorControl2 b2 > maxFwdSpeed2 b2
                then b2\<lparr>motorControl2 := maxFwdSpeed2 b2\<rparr> else b2)
      in b3)"

definition leftNudgeB :: "state \<Rightarrow> state" where
  "leftNudgeB s0 =
     (let b1 = s0\<lparr>motorControl2 := motorControl2 s0 + accelFactor\<rparr>;
          b2 = (if motorControl2 b1 = deadStop2
                then b1\<lparr>motorControl2 := deadStop2 + accelFactor\<rparr> else b1);
          b3 = (if motorControl2 b2 > maxFwdSpeed2 b2
                then b2\<lparr>motorControl2 := maxFwdSpeed2 b2\<rparr> else b2)
      in b3)"

definition leftSlowA :: "state \<Rightarrow> state" where
  "leftSlowA s0 =
     (let a1 = s0\<lparr>motorControl1 := motorControl1 s0 - accelFactor\<rparr>;
          a2 = (if motorControl1 a1 = deadStop1
                then a1\<lparr>motorControl1 := deadStop1 - accelFactor\<rparr> else a1);
          a3 = (if motorControl1 a2 < maxRevSpeed1 a2
                then a2\<lparr>motorControl1 := maxRevSpeed1 a2\<rparr> else a2)
      in a3)"

definition leftFastB :: "state \<Rightarrow> state" where
  "leftFastB s0 =
     (let b1 = s0\<lparr>motorControl2 := motorControl2 s0 + accelFactor\<rparr>;
          b2 = (if motorControl2 b1 = deadStop2
                then b1\<lparr>motorControl2 := deadStop2 + accelFactor\<rparr> else b1);
          b3 = (if motorControl2 b2 > maxFwdSpeed2 b2
                then b2\<lparr>motorControl2 := maxRevSpeed2 b2\<rparr> else b2)
      in b3)"

text \<open>
  \<open>rightButtonPressed\<close>: lines 1029-1039 (\<open>rightSpin\<close>), 1060-1064 and 1096-1100 (the
  same statements, \<open>rightStepA\<close>), 1072-1080 and 1114-1122.
\<close>

definition rightSpin :: "state \<Rightarrow> state" where
  "rightSpin s0 =
     (let a1 = s0\<lparr>motorControl1 := motorControl1 s0 + accelFactor\<rparr>;
          a2 = a1\<lparr>motorControl2 := motorControl2 a1 - accelFactor\<rparr>;
          a3 = (if motorControl1 a2 = 0 \<or> motorControl1 a2 = deadStop1
                then a2\<lparr>motorControl1 := deadStop1 + accelFactor\<rparr> else a2);
          a4 = (if motorControl2 a3 = 0 \<or> motorControl2 a3 = deadStop2
                then a3\<lparr>motorControl2 := deadStop2 - accelFactor\<rparr> else a3)
      in a4)"

definition rightStepA :: "state \<Rightarrow> state" where
  "rightStepA s0 =
     (let a1 = s0\<lparr>motorControl1 := motorControl1 s0 + accelFactor\<rparr>;
          a2 = (if motorControl1 a1 = 0 \<or> motorControl1 a1 = deadStop1
                then a1\<lparr>motorControl1 := deadStop1 + accelFactor\<rparr> else a1)
      in a2)"

definition rightCurveB :: "state \<Rightarrow> state" where
  "rightCurveB s0 =
     (let b1 = s0\<lparr>motorControl2 := motorControl2 s0 - accelFactor\<rparr>;
          b2 = (if motorControl2 b1 = 0 \<or> motorControl2 b1 = deadStop2
                then b1\<lparr>motorControl2 := deadStop2 - accelFactor\<rparr> else b1);
          b3 = (if motorControl2 b2 < maxRevSpeed2 b2
                then b2\<lparr>motorControl2 := maxRevSpeed2 b2\<rparr> else b2)
      in b3)"

definition rightSlowB :: "state \<Rightarrow> state" where
  "rightSlowB s0 =
     (let b1 = s0\<lparr>motorControl2 := motorControl2 s0 - accelFactor\<rparr>;
          b2 = (if motorControl2 b1 = deadStop2
                then b1\<lparr>motorControl2 := deadStop2 - accelFactor\<rparr> else b1);
          b3 = (if motorControl2 b2 < maxRevSpeed2 b2
                then b2\<lparr>motorControl2 := maxRevSpeed2 b2\<rparr> else b2)
      in b3)"

subsection \<open>The mirror image of a state\<close>

text \<open>
  Reflection of both motors about their centres: a command \<open>x\<close> of motor A becomes
  \<open>2 * 64 - x\<close>, a command of motor B \<open>2 * 192 - x\<close>, and the forward ceiling and the
  reverse floor of each motor change places.  \<open>accelerateReverse_mirrored\<close> is what the
  specification's description of Reverse amounts to: \<open>accelerateForward\<close> seen in the
  mirror.
\<close>

definition mirror :: "state \<Rightarrow> state" where
  "mirror s =
     s\<lparr>motorControl1 := 2 * deadStop1 - motorControl1 s,
       motorControl2 := 2 * deadStop2 - motorControl2 s,
       maxFwdSpeed1 := 2 * deadStop1 - maxRevSpeed1 s,
       maxRevSpeed1 := 2 * deadStop1 - maxFwdSpeed1 s,
       maxFwdSpeed2 := 2 * deadStop2 - maxRevSpeed2 s,
       maxRevSpeed2 := 2 * deadStop2 - maxFwdSpeed2 s\<rparr>"

definition accelerateReverse_mirrored :: "state \<Rightarrow> state" where
  "accelerateReverse_mirrored s = mirror (accelerateForward (mirror s))"

text \<open>A state \<open>t\<close> shows the commands and the forward ceilings of \<open>s\<close> in the mirror.\<close>

definition mirrored :: "state \<Rightarrow> state \<Rightarrow> bool" where
  "mirrored s t =
     (motorControl1 t = 2 * deadStop1 - motorControl1 s \<and>
      motorControl2 t = 2 * deadStop2 - motorControl2 s \<and>
      maxFwdSpeed1 t = 2 * deadStop1 - maxRevSpeed1 s \<and>
      maxFwdSpeed2 t = 2 * deadStop2 - maxRevSpeed2 s)"

section \<open>Basic facts about the functions of the sketch\<close>

lemmas params = accelFactor_def decelFactor_def trimSens_def beginnerModeDelay_def
  deadStop1_def deadStop2_def

lemmas sel_if =
  if_distrib [of motorControl1] if_distrib [of motorControl2]
  if_distrib [of motorByte1] if_distrib [of motorByte2]
  if_distrib [of rawSpeed1] if_distrib [of rawSpeed2]
  if_distrib [of speedDifference]
  if_distrib [of direction1] if_distrib [of direction2]
  if_distrib [of buttonPinNumber] if_distrib [of buttonPressedIndicator]
  if_distrib [of trimAdjustment]
  if_distrib [of maxFwdSpeed1] if_distrib [of maxFwdSpeed2]
  if_distrib [of maxRevSpeed1] if_distrib [of maxRevSpeed2]
  if_distrib [of beginnerMode] if_distrib [of serialOut]

subsection \<open>The motion functions as decision trees over their blocks\<close>

lemma accelerateForward_blocks:
  "accelerateForward s =
     (if speedDifference (fwdSnap s) = 0 then fwdBoth (fwdSnap s)
      else if (maxFwdSpeed1 (fwdSnap s) - motorControl1 (fwdSnap s))
                > (maxFwdSpeed2 (fwdSnap s) - motorControl2 (fwdSnap s))
           then fwdMotor1 (fwdSnap s)
           else fwdMotor2 (fwdSnap s))"
  by (simp only: accelerateForward_def fwdSnap_def fwdBoth_def fwdMotor1_def fwdMotor2_def Let_def)

lemma accelerateReverse_blocks:
  "accelerateReverse s =
     (if (maxFwdSpeed1 s - motorControl1 s) = (maxFwdSpeed2 s - motorControl2 s) then revBoth s
      else if (maxFwdSpeed1 s - motorControl1 s) < (maxFwdSpeed2 s - motorControl2 s)
           then revMotor1 s
           else revMotor2 s)"
  by (simp only: accelerateReverse_def revBoth_def revMotor1_def revMotor2_def Let_def)

lemma leftButtonPressed_blocks:
  "leftButtonPressed s =
     (if rawSpeed1 s = rawSpeed2 s then
        (if direction1 s \<noteq> direction2 s \<or> rawSpeed1 s = 0 then leftSpin s
         else if direction1 s = direction2 s then
           (if direction1 s = 1 then leftCurveA s else leftCurveB s)
         else if direction1 s \<noteq> direction2 s then
           (if motorControl2 s < maxFwdSpeed2 s then leftNudgeB s else s)
         else s)
      else if rawSpeed1 s < rawSpeed2 s then
        (if motorControl1 s > maxRevSpeed1 s then leftSlowA s else s)
      else if rawSpeed1 s > rawSpeed2 s then
        (if motorControl2 s < maxFwdSpeed2 s then leftFastB s else s)
      else s)"
  by (simp only: leftButtonPressed_def leftSpin_def leftCurveA_def leftCurveB_def leftNudgeB_def
      leftSlowA_def leftFastB_def Let_def)

lemma rightButtonPressed_blocks:
  "rightButtonPressed s =
     (if rawSpeed1 s = rawSpeed2 s then
        (if direction1 s \<noteq> direction2 s \<or> rawSpeed1 s = 0 then
           (if motorControl1 s < maxFwdSpeed1 s then rightSpin s else s)
         else if direction1 s = direction2 s then
           (if direction1 s = 0 then
              (if motorControl1 s < maxFwdSpeed1 s then rightStepA s else s)
            else
              (if motorControl2 s > maxRevSpeed2 s then rightCurveB s else s))
         else s)
      else if rawSpeed1 s < rawSpeed2 s then
        (if motorControl1 s < maxFwdSpeed1 s then rightStepA s else s)
      else if rawSpeed1 s > rawSpeed2 s then
        (if motorControl2 s > maxRevSpeed2 s then rightSlowB s else s)
      else s)"
  by (simp only: rightButtonPressed_def rightSpin_def rightStepA_def rightCurveB_def
      rightSlowB_def Let_def)

subsection \<open>What each function leaves alone\<close>

lemma accelerateForward_frame:
  "beginnerMode (accelerateForward s) = beginnerMode s"
  "buttonPressedIndicator (accelerateForward s) = buttonPressedIndicator s"
  "buttonPinNumber (accelerateForward s) = buttonPinNumber s"
  "serialOut (accelerateForward s) = serialOut s"
  by (simp_all add: accelerateForward_def Let_def sel_if cong: if_cong split del: if_split)

lemma accelerateReverse_frame:
  "beginnerMode (accelerateReverse s) = beginnerMode s"
  "buttonPressedIndicator (accelerateReverse s) = buttonPressedIndicator s"
  "buttonPinNumber (accelerateReverse s) = buttonPinNumber s"
  "serialOut (accelerateReverse s) = serialOut s"
  by (simp_all add: accelerateReverse_def Let_def sel_if cong: if_cong split del: if_split)

lemma leftButtonPressed_frame:
  "beginnerMode (leftButtonPressed s) = beginnerMode s"
  "buttonPressedIndicator (leftButtonPressed s) = buttonPressedIndicator s"
  "buttonPinNumber (leftButtonPressed s) = buttonPinNumber s"
  "serialOut (leftButtonPressed s) = serialOut s"
  by (simp_all add: leftButtonPressed_def Let_def sel_if cong: if_cong split del: if_split)

lemma rightButtonPressed_frame:
  "beginnerMode (rightButtonPressed s) = beginnerMode s"
  "buttonPressedIndicator (rightButtonPressed s) = buttonPressedIndicator s"
  "buttonPinNumber (rightButtonPressed s) = buttonPinNumber s"
  "serialOut (rightButtonPressed s) = serialOut s"
  by (simp_all add: rightButtonPressed_def Let_def sel_if cong: if_cong split del: if_split)

lemma decelerateFunction_frame:
  "beginnerMode (decelerateFunction s) = beginnerMode s"
  "buttonPressedIndicator (decelerateFunction s) = buttonPressedIndicator s"
  "buttonPinNumber (decelerateFunction s) = buttonPinNumber s"
  "serialOut (decelerateFunction s) = serialOut s"
  by (simp_all add: decelerateFunction_def Let_def sel_if cong: if_cong split del: if_split)

lemma motionUpdate_frame:
  "beginnerMode (motionUpdate pin s) = beginnerMode s"
  "buttonPressedIndicator (motionUpdate pin s) = buttonPressedIndicator s"
  "buttonPinNumber (motionUpdate pin s) = buttonPinNumber s"
  "serialOut (motionUpdate pin s) = serialOut s"
  by (simp_all add: motionUpdate_def Let_def accelerateForward_frame accelerateReverse_frame
      leftButtonPressed_frame rightButtonPressed_frame)

lemma clampCommands_frame:
  "beginnerMode (clampCommands s) = beginnerMode s"
  "buttonPressedIndicator (clampCommands s) = buttonPressedIndicator s"
  "buttonPinNumber (clampCommands s) = buttonPinNumber s"
  "serialOut (clampCommands s) = serialOut s"
  "rawSpeed1 (clampCommands s) = rawSpeed1 s"
  "rawSpeed2 (clampCommands s) = rawSpeed2 s"
  "direction1 (clampCommands s) = direction1 s"
  "direction2 (clampCommands s) = direction2 s"
  "trimAdjustment (clampCommands s) = trimAdjustment s"
  by (simp_all add: clampCommands_def Let_def sel_if cong: if_cong split del: if_split)

lemma clampCommands_motors:
  "motorControl1 (clampCommands s) = max 1 (min 127 (motorControl1 s))"
  "motorControl2 (clampCommands s) = max 128 (min 255 (motorControl2 s))"
  by (simp_all add: clampCommands_def Let_def)

lemma trimBlock_frame:
  "beginnerMode (trimBlock s) = beginnerMode s"
  "buttonPressedIndicator (trimBlock s) = buttonPressedIndicator s"
  "buttonPinNumber (trimBlock s) = buttonPinNumber s"
  "serialOut (trimBlock s) = serialOut s"
  "rawSpeed1 (trimBlock s) = rawSpeed1 s"
  "rawSpeed2 (trimBlock s) = rawSpeed2 s"
  "direction1 (trimBlock s) = direction1 s"
  "direction2 (trimBlock s) = direction2 s"
  "trimAdjustment (trimBlock s) = trimAdjustment s"
  by (simp_all add: trimBlock_def Let_def sel_if cong: if_cong split del: if_split)

lemma trimBlock_motors:
  "motorControl1 (trimBlock s) = motorControl1 s"
  "motorControl2 (trimBlock s) = motorControl2 s"
  by (simp_all add: trimBlock_def Let_def sel_if cong: if_cong split del: if_split)

lemma sendCommandFunction_frame:
  "beginnerMode (sendCommandFunction s) = beginnerMode s"
  "buttonPressedIndicator (sendCommandFunction s) = buttonPressedIndicator s"
  "buttonPinNumber (sendCommandFunction s) = buttonPinNumber s"
  "rawSpeed1 (sendCommandFunction s) = rawSpeed1 s"
  "rawSpeed2 (sendCommandFunction s) = rawSpeed2 s"
  "direction1 (sendCommandFunction s) = direction1 s"
  "direction2 (sendCommandFunction s) = direction2 s"
  "trimAdjustment (sendCommandFunction s) = trimAdjustment s"
  by (simp_all add: sendCommandFunction_def serialWrite_def trimBlock_frame clampCommands_frame)

lemma sendCommandFunction_motors:
  "motorControl1 (sendCommandFunction s) = max 1 (min 127 (motorControl1 s))"
  "motorControl2 (sendCommandFunction s) = max 128 (min 255 (motorControl2 s))"
  by (simp_all add: sendCommandFunction_def serialWrite_def trimBlock_motors clampCommands_motors)

lemma sendCommandFunction_serial:
  "serialOut (sendCommandFunction s) =
     serialOut s @ [motorByte1 (sendCommandFunction s), motorByte2 (sendCommandFunction s)]"
  by (simp add: sendCommandFunction_def serialWrite_def trimBlock_frame clampCommands_frame)

lemma sendCommandFunction_wireRange: "wireRange (sendCommandFunction s)"
  by (simp add: wireRange_def sendCommandFunction_motors)

lemma readPots_frame:
  "beginnerMode (readPots inp s) = beginnerMode s"
  "buttonPressedIndicator (readPots inp s) = buttonPressedIndicator s"
  "serialOut (readPots inp s) = serialOut s"
  "motorControl1 (readPots inp s) = motorControl1 s"
  "motorControl2 (readPots inp s) = motorControl2 s"
  "rawSpeed1 (readPots inp s) = rawSpeed1 s"
  "rawSpeed2 (readPots inp s) = rawSpeed2 s"
  "direction1 (readPots inp s) = direction1 s"
  "direction2 (readPots inp s) = direction2 s"
  by (simp_all add: readPots_def)

lemma latchUpdate_frame:
  "beginnerMode (latchUpdate s) = beginnerMode s"
  "serialOut (latchUpdate s) = serialOut s"
  "motorControl1 (latchUpdate s) = motorControl1 s"
  "motorControl2 (latchUpdate s) = motorControl2 s"
  "rawSpeed1 (latchUpdate s) = rawSpeed1 s"
  "rawSpeed2 (latchUpdate s) = rawSpeed2 s"
  "direction1 (latchUpdate s) = direction1 s"
  "direction2 (latchUpdate s) = direction2 s"
  by (simp_all add: latchUpdate_def Let_def)

lemma latchUpdate_indicator:
  "buttonPressedIndicator (latchUpdate s) =
     (if beginnerMode s
      then (if buttonPressedIndicator s > 0 then byte (buttonPressedIndicator s - 1)
            else buttonPressedIndicator s)
      else 0)"
  by (simp add: latchUpdate_def Let_def)

lemma deriveSpeeds_frame:
  "beginnerMode (deriveSpeeds s) = beginnerMode s"
  "buttonPressedIndicator (deriveSpeeds s) = buttonPressedIndicator s"
  "buttonPinNumber (deriveSpeeds s) = buttonPinNumber s"
  "serialOut (deriveSpeeds s) = serialOut s"
  "motorControl1 (deriveSpeeds s) = motorControl1 s"
  "motorControl2 (deriveSpeeds s) = motorControl2 s"
  "motorByte1 (deriveSpeeds s) = motorByte1 s"
  "motorByte2 (deriveSpeeds s) = motorByte2 s"
  by (simp_all add: deriveSpeeds_def Let_def)

subsection \<open>The polling loop stops at the requested pin\<close>

declare pollLoop.simps [simp del]

lemma pollLoop_requested:
  "pollLoop b inp (s\<lparr>buttonPinNumber := 2\<rparr>) =
     (case requested inp of
        None \<Rightarrow> s\<lparr>buttonPinNumber := 7\<rparr>
      | Some p \<Rightarrow>
          buttonPressedFunction p
            (s\<lparr>buttonPinNumber := p,
               buttonPressedIndicator :=
                 (if b then beginnerModeDelay else byte (buttonPressedIndicator s + 1))\<rparr>))"
  by (simp add: pollLoop.simps [of b inp] requested_def byte_def)

lemma buttonPressedFunction_frame:
  "beginnerMode (buttonPressedFunction p s) = beginnerMode s"
  "buttonPressedIndicator (buttonPressedFunction p s) = buttonPressedIndicator s"
  "buttonPinNumber (buttonPressedFunction p s) = buttonPinNumber s"
  by (simp_all add: buttonPressedFunction_def sendCommandFunction_frame motionUpdate_frame)

lemma pollButtons_requested:
  "pollButtons inp s =
     (case requested inp of
        None \<Rightarrow> s\<lparr>buttonPinNumber := 7\<rparr>
      | Some p \<Rightarrow>
          buttonPressedFunction p
            (s\<lparr>buttonPinNumber := p,
               buttonPressedIndicator :=
                 (if beginnerMode s then beginnerModeDelay
                  else byte (buttonPressedIndicator s + 1))\<rparr>))"
  by (cases "beginnerMode s")
     (simp_all add: pollButtons_def Let_def pollLoop_requested buttonPressedFunction_frame
        split: option.split)

text \<open>The state in which the buttons are polled.\<close>

lemma loop_pressed:
  assumes "requested inp = Some p"
  shows "loop inp s =
           deriveSpeeds (buttonPressedFunction p
             ((latchUpdate (readPots inp s))
                \<lparr>buttonPinNumber := p,
                 buttonPressedIndicator := (if beginnerMode s then beginnerModeDelay else 1)\<rparr>))"
  using assms
  by (simp add: loop_def pollButtons_requested idleBlock_def deriveSpeeds_frame
      buttonPressedFunction_frame latchUpdate_frame readPots_frame latchUpdate_indicator
      byte_def beginnerModeDelay_def)

lemma loop_released:
  assumes "requested inp = None"
  shows "loop inp s = idleBlock (deriveSpeeds ((latchUpdate (readPots inp s))\<lparr>buttonPinNumber := 7\<rparr>))"
  using assms by (simp add: loop_def pollButtons_requested)

lemma motionUpdate_stop:
  "motorControl1 (motionUpdate 2 s) = deadStop1" "motorControl2 (motionUpdate 2 s) = deadStop2"
  by (simp_all add: motionUpdate_def Let_def)

lemma trimBlock_bytes_other_pin:
  "buttonPinNumber s \<noteq> 3 \<Longrightarrow> buttonPinNumber s \<noteq> 4 \<Longrightarrow>
     motorByte1 (trimBlock s) = byte (motorControl1 s) \<and>
     motorByte2 (trimBlock s) = byte (motorControl2 s)"
  by (simp add: trimBlock_def Let_def)

subsection \<open>Stepped commands, governor bounds, reachable states\<close>

lemma fwdSnap_fields:
  "speedDifference (fwdSnap s) =
     \<bar>(maxFwdSpeed1 s - motorControl1 s) - (maxFwdSpeed2 s - motorControl2 s)\<bar>"
  "maxFwdSpeed1 (fwdSnap s) = maxFwdSpeed1 s" "maxFwdSpeed2 (fwdSnap s) = maxFwdSpeed2 s"
  "maxRevSpeed1 (fwdSnap s) = maxRevSpeed1 s" "maxRevSpeed2 (fwdSnap s) = maxRevSpeed2 s"
  "motorControl1 (fwdSnap s) =
     (if (maxFwdSpeed1 s - motorControl1 s) - (maxFwdSpeed2 s - motorControl2 s) = 1
      then motorControl1 s + 1 else motorControl1 s)"
  "motorControl2 (fwdSnap s) =
     (if (maxFwdSpeed1 s - motorControl1 s) - (maxFwdSpeed2 s - motorControl2 s) = - 1
      then motorControl2 s + 1 else motorControl2 s)"
  by (auto simp: fwdSnap_def Let_def params)











lemma cdiv_nonneg: "0 \<le> a \<Longrightarrow> 0 < b \<Longrightarrow> cdiv a b = a div b"
  by (cases "a = 0") (simp_all add: cdiv_def)

lemma cdiv_minus: "0 \<le> a \<Longrightarrow> 0 < b \<Longrightarrow> cdiv (- a) b = - (a div b)"
  by (cases "a = 0") (simp_all add: cdiv_def)

lemma governor_values:
  assumes "0 \<le> a" "a \<le> 1023"
  shows "map_arduino a 0 1023 65 127 = 65 + a * 62 div 1023"
    and "map_arduino a 0 1023 193 255 = 193 + a * 62 div 1023"
    and "map_arduino a 0 1023 63 1 = 63 - a * 62 div 1023"
    and "map_arduino a 0 1023 191 128 = 191 - a * 63 div 1023"
    and "0 \<le> a * 62 div 1023" and "a * 62 div 1023 \<le> 62"
    and "0 \<le> a * 63 div 1023" and "a * 63 div 1023 \<le> 63"
proof -
  show "map_arduino a 0 1023 65 127 = 65 + a * 62 div 1023"
    using assms by (simp add: map_arduino_def cdiv_nonneg)
  show "map_arduino a 0 1023 193 255 = 193 + a * 62 div 1023"
    using assms by (simp add: map_arduino_def cdiv_nonneg)
  have "map_arduino a 0 1023 63 1 = cdiv (- (a * 62)) 1023 + 63"
    by (simp add: map_arduino_def)
  then show "map_arduino a 0 1023 63 1 = 63 - a * 62 div 1023"
    using assms by (simp add: cdiv_minus)
  have "map_arduino a 0 1023 191 128 = cdiv (- (a * 63)) 1023 + 191"
    by (simp add: map_arduino_def)
  then show "map_arduino a 0 1023 191 128 = 191 - a * 63 div 1023"
    using assms by (simp add: cdiv_minus)
  show "0 \<le> a * 62 div 1023" "0 \<le> a * 63 div 1023"
    using assms by simp_all
  show "a * 62 div 1023 \<le> 62" "a * 63 div 1023 \<le> 63"
    using assms by simp_all
qed

lemma readPots_bounds:
  assumes "validInputs inp"
  shows "strictBounds (readPots inp s)"
    and "maxFwdSpeed2 (readPots inp s) = maxFwdSpeed1 (readPots inp s) + 128"
proof -
  from assms have a: "0 \<le> analogA0 inp" "analogA0 inp \<le> 1023"
    by (simp_all add: validInputs_def)
  note g = governor_values [OF a]
  have f1: "maxFwdSpeed1 (readPots inp s) = 65 + analogA0 inp * 62 div 1023"
    using g(5,6) by (simp add: readPots_def g(1) byte_def)
  have f2: "maxFwdSpeed2 (readPots inp s) = 193 + analogA0 inp * 62 div 1023"
    using g(5,6) by (simp add: readPots_def g(2) byte_def)
  have r1: "maxRevSpeed1 (readPots inp s) = 63 - analogA0 inp * 62 div 1023"
    using g(5,6) by (simp add: readPots_def g(3) byte_def)
  have r2: "maxRevSpeed2 (readPots inp s) = 191 - analogA0 inp * 63 div 1023"
    using g(7,8) by (simp add: readPots_def g(4) byte_def)
  show "strictBounds (readPots inp s)"
    using g(5-8) by (simp add: strictBounds_def f1 f2 r1 r2 params)
  show "maxFwdSpeed2 (readPots inp s) = maxFwdSpeed1 (readPots inp s) + 128"
    by (simp add: f1 f2)
qed

lemma loop_wireRange:
  assumes "wireRange s"
  shows "wireRange (loop inp s)"
proof (cases "requested inp")
  case None
  have "wireRange (deriveSpeeds ((latchUpdate (readPots inp s))\<lparr>buttonPinNumber := 7\<rparr>))"
    using assms by (simp add: wireRange_def deriveSpeeds_frame latchUpdate_frame readPots_frame)
  then show ?thesis
    by (simp add: loop_released [OF None] idleBlock_def sendCommandFunction_wireRange)
next
  case (Some p)
  have "wireRange (sendCommandFunction x)" for x
    by (rule sendCommandFunction_wireRange)
  then show ?thesis
    by (simp add: loop_pressed [OF Some] buttonPressedFunction_def wireRange_def deriveSpeeds_frame)
qed

lemma reachable_wire_range: "reachable s \<Longrightarrow> wireRange s"
proof (induction rule: reachable.induct)
  case (init pin12Low)
  show ?case
    by (simp add: wireRange_def initState_def params)
next
  case (step s inp)
  then show ?case
    by (simp add: loop_wireRange)
qed

lemma reachable_run:
  "reachable s \<Longrightarrow> list_all validInputs inps \<Longrightarrow> reachable (run inps s)"
  by (induction inps arbitrary: s) (simp_all add: reachable.step)

lemma decelerateFunction_motors:
  "motorControl1 (decelerateFunction s) = stepToward deadStop1 decelFactor (motorControl1 s)"
  "motorControl2 (decelerateFunction s) = stepToward deadStop2 decelFactor (motorControl2 s)"
  by (auto simp: decelerateFunction_def stepToward_def Let_def params)

subsection \<open>Ticks with and without a request\<close>

lemma loop_pollState:
  "requested inp = Some p \<Longrightarrow>
     loop inp s = deriveSpeeds (sendCommandFunction (motionUpdate p (pollState inp p s)))"
  by (simp add: loop_pressed pollState_def buttonPressedFunction_def)

lemma pollState_fields:
  "motorControl1 (pollState inp p s) = motorControl1 s"
  "motorControl2 (pollState inp p s) = motorControl2 s"
  "rawSpeed1 (pollState inp p s) = rawSpeed1 s"
  "rawSpeed2 (pollState inp p s) = rawSpeed2 s"
  "direction1 (pollState inp p s) = direction1 s"
  "direction2 (pollState inp p s) = direction2 s"
  "maxFwdSpeed1 (pollState inp p s) = maxFwdSpeed1 (readPots inp s)"
  "maxFwdSpeed2 (pollState inp p s) = maxFwdSpeed2 (readPots inp s)"
  "maxRevSpeed1 (pollState inp p s) = maxRevSpeed1 (readPots inp s)"
  "maxRevSpeed2 (pollState inp p s) = maxRevSpeed2 (readPots inp s)"
  by (simp_all add: pollState_def latchUpdate_def Let_def readPots_def)

lemma pollState_bounds:
  "validInputs inp \<Longrightarrow> strictBounds (pollState inp p s)"
  "validInputs inp \<Longrightarrow> maxFwdSpeed2 (pollState inp p s) = maxFwdSpeed1 (pollState inp p s) + 128"
  using readPots_bounds [of inp s] by (simp_all add: strictBounds_def pollState_fields)

lemma motionUpdate_pins:
  assumes "motorControl1 s \<noteq> 0" "motorControl2 s \<noteq> 0"
  shows "motionUpdate 3 s = accelerateForward s" "motionUpdate 4 s = accelerateReverse s"
        "motionUpdate 5 s = leftButtonPressed s" "motionUpdate 6 s = rightButtonPressed s"
  using assms by (simp_all add: motionUpdate_def)


lemma stepToward_add:
  "0 \<le> d \<Longrightarrow> 0 \<le> e \<Longrightarrow> stepToward c e (stepToward c d x) = stepToward c (d + e) x"
  by (auto simp: stepToward_def)

lemma stepToward_between:
  "0 \<le> d \<Longrightarrow> lo \<le> x \<Longrightarrow> x \<le> hi \<Longrightarrow> lo \<le> c \<Longrightarrow> c \<le> hi \<Longrightarrow>
     lo \<le> stepToward c d x \<and> stepToward c d x \<le> hi"
  by (auto simp: stepToward_def)

lemma loop_idle:
  assumes wr: "wireRange s" and req: "requested inp = None"
    and ind: "buttonPressedIndicator (latchUpdate (readPots inp s)) = 0"
  shows "motorControl1 (loop inp s) = stepToward deadStop1 decelFactor (motorControl1 s)"
    and "motorControl2 (loop inp s) = stepToward deadStop2 decelFactor (motorControl2 s)"
    and "buttonPressedIndicator (loop inp s) = 0"
    and "beginnerMode (loop inp s) = beginnerMode s"
proof -
  let ?D = "deriveSpeeds ((latchUpdate (readPots inp s))\<lparr>buttonPinNumber := 7\<rparr>)"
  have D: "motorControl1 ?D = motorControl1 s" "motorControl2 ?D = motorControl2 s"
    "buttonPressedIndicator ?D = 0" "beginnerMode ?D = beginnerMode s"
    using ind by (simp_all add: deriveSpeeds_frame latchUpdate_frame readPots_frame)
  let ?E = "if (motorControl1 ?D = 0 \<or> motorControl1 ?D = deadStop1) \<and>
               (motorControl2 ?D = 0 \<or> motorControl2 ?D = deadStop2)
            then ?D\<lparr>motorControl1 := deadStop1, motorControl2 := deadStop2\<rparr>
            else decelerateFunction ?D"
  have l: "loop inp s = sendCommandFunction ?E"
    using D(3) by (simp add: loop_released [OF req] idleBlock_def)
  have E1: "motorControl1 ?E = stepToward deadStop1 decelFactor (motorControl1 s)"
    using wr D(1,2)
    by (auto simp: decelerateFunction_motors wireRange_def stepToward_def params)
  have E2: "motorControl2 ?E = stepToward deadStop2 decelFactor (motorControl2 s)"
    using wr D(1,2)
    by (auto simp: decelerateFunction_motors wireRange_def stepToward_def params)
  have b1: "1 \<le> stepToward deadStop1 decelFactor (motorControl1 s) \<and>
            stepToward deadStop1 decelFactor (motorControl1 s) \<le> 127"
    using wr by (intro stepToward_between) (simp_all add: wireRange_def params)
  have b2: "128 \<le> stepToward deadStop2 decelFactor (motorControl2 s) \<and>
            stepToward deadStop2 decelFactor (motorControl2 s) \<le> 255"
    using wr by (intro stepToward_between) (simp_all add: wireRange_def params)
  show "motorControl1 (loop inp s) = stepToward deadStop1 decelFactor (motorControl1 s)"
    using b1 by (simp add: l sendCommandFunction_motors E1)
  show "motorControl2 (loop inp s) = stepToward deadStop2 decelFactor (motorControl2 s)"
    using b2 by (simp add: l sendCommandFunction_motors E2)
  have "buttonPressedIndicator ?E = 0" "beginnerMode ?E = beginnerMode s"
    using D(3,4) by (simp_all add: decelerateFunction_frame)
  then show "buttonPressedIndicator (loop inp s) = 0" "beginnerMode (loop inp s) = beginnerMode s"
    by (simp_all add: l sendCommandFunction_frame)
qed

lemma idleMode_latch: "idleMode s \<Longrightarrow> buttonPressedIndicator (latchUpdate (readPots inp s)) = 0"
  by (auto simp: idleMode_def latchUpdate_indicator readPots_frame byte_def)

lemma run_idle:
  assumes "wireRange s" "idleMode s" "\<forall>inp \<in> set inps. requested inp = None"
  shows "motorControl1 (run inps s) =
           stepToward deadStop1 (decelFactor * int (length inps)) (motorControl1 s) \<and>
         motorControl2 (run inps s) =
           stepToward deadStop2 (decelFactor * int (length inps)) (motorControl2 s)"
  using assms
proof (induction inps arbitrary: s)
  case Nil
  show ?case
    by (simp add: stepToward_def)
next
  case (Cons inp inps)
  from Cons.prems have req: "requested inp = None"
    by simp
  note one = loop_idle [OF Cons.prems(1) req idleMode_latch [OF Cons.prems(2)]]
  have "wireRange (loop inp s)"
    using Cons.prems(1) by (rule loop_wireRange)
  moreover have "idleMode (loop inp s)"
    by (simp add: idleMode_def one(3))
  moreover have "\<forall>i \<in> set inps. requested i = None"
    using Cons.prems(3) by simp
  ultimately have ih:
    "motorControl1 (run inps (loop inp s)) =
       stepToward deadStop1 (decelFactor * int (length inps)) (motorControl1 (loop inp s)) \<and>
     motorControl2 (run inps (loop inp s)) =
       stepToward deadStop2 (decelFactor * int (length inps)) (motorControl2 (loop inp s))"
    by (rule Cons.IH)
  have "decelFactor + decelFactor * int (length inps) = decelFactor * int (length (inp # inps))"
    by (simp add: algebra_simps)
  with ih show ?case
    by (simp add: one(1,2) stepToward_add decelFactor_def)
qed


lemma deriveSpeeds_reverse:
  "motorControl1 s \<noteq> 0 \<Longrightarrow> motorControl1 s < deadStop1 \<Longrightarrow> motorControl2 s < deadStop2 \<Longrightarrow>
     direction1 (deriveSpeeds s) = 48 \<and> direction2 (deriveSpeeds s) = 0"
  by (simp add: deriveSpeeds_def Let_def params)

lemma deriveSpeeds_reverseDirs: "wireRange s \<Longrightarrow> reverseDirs (deriveSpeeds s)"
  using deriveSpeeds_reverse [of s]
  by (simp add: reverseDirs_def wireRange_def deriveSpeeds_frame)

lemma stepToward_side: "0 \<le> d \<Longrightarrow> stepToward c d x < c \<Longrightarrow> x < c"
  by (auto simp: stepToward_def split: if_splits)

lemma decelerateFunction_dirs:
  "direction1 (decelerateFunction s) = direction1 s"
  "direction2 (decelerateFunction s) = direction2 s"
  by (simp_all add: decelerateFunction_def Let_def sel_if cong: if_cong split del: if_split)

lemma loop_reverseDirs:
  assumes wr: "wireRange s"
  shows "reverseDirs (loop inp s)"
proof (cases "requested inp")
  case (Some p)
  have "wireRange (sendCommandFunction (motionUpdate p (pollState inp p s)))"
    by (rule sendCommandFunction_wireRange)
  then show ?thesis
    by (simp add: loop_pollState [OF Some] deriveSpeeds_reverseDirs)
next
  case None
  let ?X = "(latchUpdate (readPots inp s))\<lparr>buttonPinNumber := 7\<rparr>"
  let ?D = "deriveSpeeds ?X"
  have "wireRange ?X"
    using wr by (simp add: wireRange_def latchUpdate_frame readPots_frame)
  then have rd: "reverseDirs ?D"
    by (rule deriveSpeeds_reverseDirs)
  have D: "motorControl1 ?D = motorControl1 s" "motorControl2 ?D = motorControl2 s"
    by (simp_all add: deriveSpeeds_frame latchUpdate_frame readPots_frame)
  show ?thesis
  proof (cases "buttonPressedIndicator ?D = 0")
    case False
    with rd show ?thesis
      by (simp add: loop_released [OF None] idleBlock_def)
  next
    case True
    then have ind: "buttonPressedIndicator (latchUpdate (readPots inp s)) = 0"
      by (simp add: deriveSpeeds_frame)
    note one = loop_idle [OF wr None ind]
    have l: "loop inp s = sendCommandFunction
               (if (motorControl1 ?D = 0 \<or> motorControl1 ?D = deadStop1) \<and>
                   (motorControl2 ?D = 0 \<or> motorControl2 ?D = deadStop2)
                then ?D\<lparr>motorControl1 := deadStop1, motorControl2 := deadStop2\<rparr>
                else decelerateFunction ?D)"
      using True by (simp add: loop_released [OF None] idleBlock_def)
    have dirs: "direction1 (loop inp s) = direction1 ?D" "direction2 (loop inp s) = direction2 ?D"
      by (simp_all add: l sendCommandFunction_frame decelerateFunction_dirs)
    show ?thesis
      unfolding reverseDirs_def
    proof
      assume a: "motorControl1 (loop inp s) < deadStop1 \<and> motorControl2 (loop inp s) < deadStop2"
      have "motorControl1 s < deadStop1"
        using a one(1) stepToward_side [of decelFactor deadStop1 "motorControl1 s"]
        by (simp add: decelFactor_def)
      moreover have "motorControl2 s < deadStop2"
        using a one(2) stepToward_side [of decelFactor deadStop2 "motorControl2 s"]
        by (simp add: decelFactor_def)
      ultimately show "direction1 (loop inp s) = 48 \<and> direction2 (loop inp s) = 0"
        using rd by (simp add: reverseDirs_def D dirs)
    qed
  qed
qed

lemma reachable_reverseDirs: "reachable s \<Longrightarrow> reverseDirs s"
proof (induction rule: reachable.induct)
  case (init pin12Low)
  show ?case
    by (simp add: reverseDirs_def initState_def)
next
  case (step s inp)
  then show ?case
    by (simp add: loop_reverseDirs reachable_wire_range)
qed



text \<open>The idle block is the idle update followed by \<open>sendCommandFunction\<close>.\<close>

lemma idleBlock_idleUpdate:
  "idleBlock s = (if buttonPressedIndicator s = 0 then sendCommandFunction (idleUpdate s) else s)"
  by (simp only: idleBlock_def idleUpdate_def)

lemma idleUpdate_frame:
  "buttonPinNumber (idleUpdate s) = buttonPinNumber s"
  "serialOut (idleUpdate s) = serialOut s"
  by (simp_all add: idleUpdate_def decelerateFunction_frame)

lemma sendCommandFunction_bytes_other_pin:
  assumes "buttonPinNumber s \<noteq> 3" "buttonPinNumber s \<noteq> 4"
  shows "motorByte1 (sendCommandFunction s) = motorControl1 (sendCommandFunction s)"
    and "motorByte2 (sendCommandFunction s) = motorControl2 (sendCommandFunction s)"
proof -
  let ?c = "clampCommands s"
  have p: "buttonPinNumber ?c \<noteq> 3" "buttonPinNumber ?c \<noteq> 4"
    using assms by (simp_all add: clampCommands_frame)
  note b = trimBlock_bytes_other_pin [OF p]
  have r: "1 \<le> motorControl1 ?c" "motorControl1 ?c \<le> 127"
          "128 \<le> motorControl2 ?c" "motorControl2 ?c \<le> 255"
    by (simp_all add: clampCommands_motors)
  show "motorByte1 (sendCommandFunction s) = motorControl1 (sendCommandFunction s)"
    using b r(1,2) by (simp add: sendCommandFunction_def serialWrite_def trimBlock_motors byte_def)
  show "motorByte2 (sendCommandFunction s) = motorControl2 (sendCommandFunction s)"
    using b r(3,4) by (simp add: sendCommandFunction_def serialWrite_def trimBlock_motors byte_def)
qed

subsection \<open>Forward and Reverse, block by block\<close>

lemma fwd_blocks_values:
  "motorControl1 (fwdBoth s) =
     (let x = (if motorControl1 s < deadStop1 then motorControl1 s + decelFactor
               else motorControl1 s + accelFactor);
          y = (if x = deadStop1 then x + accelFactor else x)
      in if y > maxFwdSpeed1 s then maxFwdSpeed1 s else y)"
  "motorControl2 (fwdBoth s) =
     (let x = (if motorControl2 s < deadStop2 then motorControl2 s + decelFactor
               else motorControl2 s + accelFactor);
          y = (if x = deadStop2 then x + accelFactor else x)
      in if y > maxFwdSpeed2 s then maxFwdSpeed2 s else y)"
  "motorControl1 (fwdMotor1 s) =
     (let x = motorControl1 s + accelFactor;
          y = (if x = deadStop1 then x + accelFactor else x)
      in if y > maxFwdSpeed1 s then maxFwdSpeed1 s else y)"
  "motorControl2 (fwdMotor1 s) = motorControl2 s"
  "motorControl1 (fwdMotor2 s) = motorControl1 s"
  "motorControl2 (fwdMotor2 s) =
     (let x = motorControl2 s + accelFactor;
          y = (if x = deadStop2 then deadStop2 + accelFactor else x)
      in if y > maxFwdSpeed2 s then maxFwdSpeed2 s else y)"
  by (simp_all add: fwdBoth_def fwdMotor1_def fwdMotor2_def Let_def sel_if
      cong: if_cong split del: if_split)

lemma rev_blocks_values:
  "motorControl1 (revBoth s) =
     (let x = (if motorControl1 s > deadStop2 then motorControl1 s - decelFactor
               else motorControl1 s - accelFactor);
          y = (if x = deadStop1 then deadStop1 - accelFactor else x)
      in if y < maxRevSpeed1 s then maxRevSpeed1 s else y)"
  "motorControl2 (revBoth s) =
     (let x = (if motorControl2 s > deadStop2 then motorControl2 s - decelFactor
               else motorControl2 s - accelFactor);
          y = (if x = deadStop2 then deadStop2 - accelFactor else x)
      in if y < maxRevSpeed2 s then maxRevSpeed2 s else y)"
  "motorControl1 (revMotor1 s) =
     (let x = motorControl1 s - accelFactor;
          y = (if x = deadStop1 then deadStop1 - accelFactor else x)
      in if y < maxRevSpeed1 s then maxRevSpeed1 s else y)"
  "motorControl2 (revMotor1 s) = motorControl2 s"
  "motorControl1 (revMotor2 s) = motorControl1 s"
  "motorControl2 (revMotor2 s) =
     (let x = motorControl2 s - accelFactor;
          y = (if x = deadStop2 then deadStop2 - accelFactor else x)
      in if y < maxRevSpeed2 s then maxRevSpeed2 s else y)"
  by (simp_all add: revBoth_def revMotor1_def revMotor2_def Let_def sel_if
      cong: if_cong split del: if_split)

lemma mirrored_blocks:
  "mirrored s t \<Longrightarrow> motorControl1 s \<le> deadStop1 \<Longrightarrow>
     motorControl1 (fwdBoth t) = 2 * deadStop1 - motorControl1 (revBoth s)"
  "mirrored s t \<Longrightarrow> motorControl2 (fwdBoth t) = 2 * deadStop2 - motorControl2 (revBoth s)"
  "mirrored s t \<Longrightarrow> motorControl1 (fwdMotor1 t) = 2 * deadStop1 - motorControl1 (revMotor1 s)"
  "mirrored s t \<Longrightarrow> motorControl2 (fwdMotor1 t) = 2 * deadStop2 - motorControl2 (revMotor1 s)"
  "mirrored s t \<Longrightarrow> motorControl1 (fwdMotor2 t) = 2 * deadStop1 - motorControl1 (revMotor2 s)"
  "mirrored s t \<Longrightarrow> motorControl2 (fwdMotor2 t) = 2 * deadStop2 - motorControl2 (revMotor2 s)"
  by (auto simp: mirrored_def fwd_blocks_values rev_blocks_values Let_def params)


lemma mirror_fields:
  "motorControl1 (mirror s) = 2 * deadStop1 - motorControl1 s"
  "motorControl2 (mirror s) = 2 * deadStop2 - motorControl2 s"
  "maxFwdSpeed1 (mirror s) = 2 * deadStop1 - maxRevSpeed1 s"
  "maxRevSpeed1 (mirror s) = 2 * deadStop1 - maxFwdSpeed1 s"
  "maxFwdSpeed2 (mirror s) = 2 * deadStop2 - maxRevSpeed2 s"
  "maxRevSpeed2 (mirror s) = 2 * deadStop2 - maxFwdSpeed2 s"
  by (simp_all add: mirror_def)

subsection \<open>The blocks as ramp steps\<close>

lemmas ramp_defs = rampUp_def rampDown_def skipUp_def skipDown_def

lemma fwd_blocks_ramp:
  "motorControl1 (fwdBoth s) =
     rampUp deadStop1 (if motorControl1 s < deadStop1 then decelFactor else accelFactor)
       accelFactor (maxFwdSpeed1 s) (motorControl1 s)"
  "motorControl2 (fwdBoth s) =
     rampUp deadStop2 (if motorControl2 s < deadStop2 then decelFactor else accelFactor)
       accelFactor (maxFwdSpeed2 s) (motorControl2 s)"
  "motorControl1 (fwdMotor1 s) =
     rampUp deadStop1 accelFactor accelFactor (maxFwdSpeed1 s) (motorControl1 s)"
  "motorControl2 (fwdMotor2 s) =
     rampUp deadStop2 accelFactor accelFactor (maxFwdSpeed2 s) (motorControl2 s)"
  by (auto simp: fwd_blocks_values ramp_defs Let_def)

lemma rev_blocks_ramp:
  "motorControl1 (revBoth s) =
     rampDown deadStop1 (if motorControl1 s > deadStop2 then decelFactor else accelFactor)
       accelFactor (maxRevSpeed1 s) (motorControl1 s)"
  "motorControl2 (revBoth s) =
     rampDown deadStop2 (if motorControl2 s > deadStop2 then decelFactor else accelFactor)
       accelFactor (maxRevSpeed2 s) (motorControl2 s)"
  "motorControl1 (revMotor1 s) =
     rampDown deadStop1 accelFactor accelFactor (maxRevSpeed1 s) (motorControl1 s)"
  "motorControl2 (revMotor2 s) =
     rampDown deadStop2 accelFactor accelFactor (maxRevSpeed2 s) (motorControl2 s)"
  by (auto simp: rev_blocks_values ramp_defs Let_def)










text \<open>With commands in the wire ranges, line 764 never selects the decel increment for motor A.\<close>

lemma revBoth_motorA_accel:
  "motorControl1 s \<le> deadStop2 \<Longrightarrow>
     motorControl1 (revBoth s) =
       rampDown deadStop1 accelFactor accelFactor (maxRevSpeed1 s) (motorControl1 s)"
  by (simp add: rev_blocks_ramp(1))

section \<open>The emitted bytes (C1)\<close>

text \<open>
  C1 says that after \<open>sendCommandFunction\<close> the byte emitted for motor A lies in 1..127
  and the byte emitted for motor B in 128..255, in every reachable state and for the
  bytes after the trim correction.  The sketch clamps the persistent commands first
  (lines 384-402, under the comment that they are to be within valid range) and adds the
  trim afterwards, unclamped, wrapping into a byte.  Run from power-up with the throttle
  and the trim potentiometer at their maximum (trim +6): 31 ticks of Forward bring the
  commands to 126 and 254; the next tick requests Reverse, motor B steps to 250, the trim
  branch for reverse motion computes 250 + 6 = 256, and the byte written for motor B is
  0, outside 128..255.
\<close>

theorem C1_trim_leaves_wire_range:
  "motorControl2 (run (replicate 31 (pressing 1023 1023 3) @ [pressing 1023 1023 4])
      (initState False)) = 250 \<and>
   trimAdjustment (run (replicate 31 (pressing 1023 1023 3) @ [pressing 1023 1023 4])
      (initState False)) = 6 \<and>
   motorByte2 (run (replicate 31 (pressing 1023 1023 3) @ [pressing 1023 1023 4])
      (initState False)) = 0 \<and>
   drop 62 (serialOut (run (replicate 31 (pressing 1023 1023 3) @ [pressing 1023 1023 4])
      (initState False))) = [124, 0]"
  by code_simp

section \<open>The clamp of the left pivot (C2)\<close>

text \<open>
  C2 says that in every pivot branch the stepped command is clamped to the bound of the
  direction it steps towards, and is never replaced by the opposite bound.  In
  \<open>leftButtonPressed\<close>, the branch for \<open>rawSpeed1 > rawSpeed2\<close> steps motor B towards
  forward and, when the step exceeds \<open>maxFwdSpeed2\<close>, assigns \<open>maxRevSpeed2\<close> (line
  993); the two sibling blocks of the same function assign \<open>maxFwdSpeed2\<close> (lines 895
  and 948).  Run from power-up: Forward, Left, Right, Right, Right at full throttle leave
  the commands at 70 and 196; a Left tick with the throttle at 70 (forward ceiling 197,
  reverse floor 187 for motor B) steps motor B to 198 and replaces it by 187: from
  forward of its centre 192 to reverse of it.
\<close>

theorem C2_left_pivot_clamps_to_reverse_floor:
  "motorControl2 (run [pressing 1023 512 3, pressing 1023 512 5, pressing 1023 512 6,
                       pressing 1023 512 6, pressing 1023 512 6] (initState False)) = 196 \<and>
   maxFwdSpeed2 (run [pressing 1023 512 3, pressing 1023 512 5, pressing 1023 512 6,
                      pressing 1023 512 6, pressing 1023 512 6, pressing 70 512 5]
                   (initState False)) = 197 \<and>
   maxRevSpeed2 (run [pressing 1023 512 3, pressing 1023 512 5, pressing 1023 512 6,
                      pressing 1023 512 6, pressing 1023 512 6, pressing 70 512 5]
                   (initState False)) = 187 \<and>
   motorControl2 (run [pressing 1023 512 3, pressing 1023 512 5, pressing 1023 512 6,
                       pressing 1023 512 6, pressing 1023 512 6, pressing 70 512 5]
                    (initState False)) = 187"
  by code_simp

text \<open>
  The same claim, first half: three blocks of \<open>rightButtonPressed\<close> (lines 1029-1039,
  1060-1064 and 1096-1100) test the bound before the step and have no clamp after it,
  where the blocks of \<open>leftButtonPressed\<close> clamp.  Two Right ticks at full throttle and
  one at throttle 70 (bounds 59..69 and 187..197) leave motor A at 70, above its forward
  ceiling, and motor B at 186, below its reverse floor.
\<close>

lemma rightSpin_not_clamped:
  "maxFwdSpeed1 (run [pressing 1023 512 6, pressing 1023 512 6, pressing 70 512 6]
                   (initState False)) = 69 \<and>
   maxRevSpeed2 (run [pressing 1023 512 6, pressing 1023 512 6, pressing 70 512 6]
                   (initState False)) = 187 \<and>
   motorControl1 (run [pressing 1023 512 6, pressing 1023 512 6, pressing 70 512 6]
                    (initState False)) = 70 \<and>
   motorControl2 (run [pressing 1023 512 6, pressing 1023 512 6, pressing 70 512 6]
                    (initState False)) = 186"
  by code_simp

section \<open>The dead spot (C3)\<close>




section \<open>Trim and the centre (C4)\<close>

text \<open>
  C4 says that on a Forward or Reverse tick the trim is applied to a motor's byte only
  when that motor's magnitude of the current tick exceeds the absolute trim, so that the
  trimmed byte never crosses the motor's centre.  The guard of the sketch (line 421,
  commented as ensuring that the trim does not make a motor overshoot zero) tests
  \<open>rawSpeed1\<close> only, also where the trim is applied to motor B, and \<open>rawSpeed1\<close> is the
  value derived in the previous iteration of \<open>loop()\<close>.  Run from power-up at full
  throttle and trim +6: four ticks of Right, then four ticks of Forward.  In the last
  tick motor B is at 194 (magnitude 2, not above 6), the guard passes on motor A's
  magnitude 8, and the byte written for motor B is 194 - 6 = 188, on the reverse side of
  its centre 192.
\<close>

theorem C4_trim_crosses_center_of_motor_B:
  "motorControl2 (run (replicate 4 (pressing 1023 1023 6) @ replicate 4 (pressing 1023 1023 3))
      (initState False)) = 194 \<and>
   rawSpeed2 (run (replicate 4 (pressing 1023 1023 6) @ replicate 4 (pressing 1023 1023 3))
      (initState False)) = 2 \<and>
   trimAdjustment (run (replicate 4 (pressing 1023 1023 6) @ replicate 4 (pressing 1023 1023 3))
      (initState False)) = 6 \<and>
   motorByte2 (run (replicate 4 (pressing 1023 1023 6) @ replicate 4 (pressing 1023 1023 3))
      (initState False)) = 188"
  by code_simp

section \<open>Reverse against Forward (C5)\<close>

text \<open>
  C5 says that \<open>accelerateReverse\<close> is \<open>accelerateForward\<close> seen in the mirror: each
  motor's command is compared with the motor's own centre to choose between the decel
  and the accel increment.  Where both motors are stepped, \<open>accelerateReverse\<close>
  compares the command of motor A with \<open>deadStop2\<close>, the centre of motor B (line 764,
  \<open>motorControl1 > deadStop2\<close>); the same place for motor B compares \<open>motorControl2\<close>
  with \<open>deadStop2\<close> (line 783), and \<open>accelerateForward\<close> compares \<open>motorControl1\<close>
  with \<open>deadStop1\<close> (line 638).  A command of motor A is at most 127, so the decel
  increment is never chosen for motor A.  Run from power-up: eight Forward ticks at
  throttle 512 leave the commands at 80 and 208, with bounds 32..96 and 160..224 and
  equal headrooms.  In the Reverse tick that follows, motor A is above its centre 64 and
  below 192, and is stepped by the accel increment to 78, while motor B is stepped by
  the decel increment to 204; 78 and 204 are the bytes sent.  The mirror image of
  \<open>accelerateForward\<close> steps both motors by the decel increment, to 76 and 204.
\<close>

theorem C5_reverse_tests_motor_A_against_center_of_motor_B:
  "motorControl1 (run (replicate 8 (pressing 512 512 3)) (initState False)) = 80 \<and>
   motorControl2 (run (replicate 8 (pressing 512 512 3)) (initState False)) = 208 \<and>
   maxRevSpeed1 (pollState (pressing 512 512 4) 4
      (run (replicate 8 (pressing 512 512 3)) (initState False))) = 32 \<and>
   maxFwdSpeed1 (pollState (pressing 512 512 4) 4
      (run (replicate 8 (pressing 512 512 3)) (initState False))) = 96 \<and>
   maxRevSpeed2 (pollState (pressing 512 512 4) 4
      (run (replicate 8 (pressing 512 512 3)) (initState False))) = 160 \<and>
   maxFwdSpeed2 (pollState (pressing 512 512 4) 4
      (run (replicate 8 (pressing 512 512 3)) (initState False))) = 224 \<and>
   deadStop1 < motorControl1 (run (replicate 8 (pressing 512 512 3)) (initState False)) \<and>
   motorControl1 (run (replicate 8 (pressing 512 512 3)) (initState False)) < deadStop2 \<and>
   motorControl1 (accelerateReverse (pollState (pressing 512 512 4) 4
      (run (replicate 8 (pressing 512 512 3)) (initState False)))) = 78 \<and>
   motorControl1 (accelerateReverse_mirrored (pollState (pressing 512 512 4) 4
      (run (replicate 8 (pressing 512 512 3)) (initState False)))) = 76 \<and>
   motorControl2 (accelerateReverse (pollState (pressing 512 512 4) 4
      (run (replicate 8 (pressing 512 512 3)) (initState False)))) = 204 \<and>
   motorControl2 (accelerateReverse_mirrored (pollState (pressing 512 512 4) 4
      (run (replicate 8 (pressing 512 512 3)) (initState False)))) = 204 \<and>
   motorControl1 (loop (pressing 512 512 4)
      (run (replicate 8 (pressing 512 512 3)) (initState False))) = 78 \<and>
   motorControl2 (loop (pressing 512 512 4)
      (run (replicate 8 (pressing 512 512 3)) (initState False))) = 204 \<and>
   serialOut (loop (pressing 512 512 4)
      (run (replicate 8 (pressing 512 512 3)) (initState False))) =
     serialOut (run (replicate 8 (pressing 512 512 3)) (initState False)) @ [78, 204]"
  by code_simp

text \<open>
  How far \<open>accelerateReverse\<close> is the mirror image of \<open>accelerateForward\<close>.
  \<open>accelerateReverse\<close> chooses the motors to step by the distances to the forward
  ceilings, the mirror image by the distances to the reverse floors, and only the
  mirror image has the convergence correction, which acts when the distances differ by
  1.  Whenever the two comparisons have the same outcome and the distances to the floors
  do not differ by 1, the two agree on motor B; they agree on motor A when the distances
  differ, and when they are equal and motor A is not above its centre.  With equal
  distances and motor A above its centre, \<open>accelerateReverse\<close> steps motor A by the
  accel increment and the mirror image steps it by the decel increment.
\<close>

lemma accelerateReverse_mirrored_agreement:
  assumes g: "sgn ((maxFwdSpeed2 s - motorControl2 s) - (maxFwdSpeed1 s - motorControl1 s)) =
              sgn ((motorControl1 s - maxRevSpeed1 s) - (motorControl2 s - maxRevSpeed2 s))"
    and d: "\<bar>(motorControl1 s - maxRevSpeed1 s) - (motorControl2 s - maxRevSpeed2 s)\<bar> \<noteq> 1"
  shows "motorControl2 (accelerateReverse s) = motorControl2 (accelerateReverse_mirrored s)"
    and "motorControl1 s - maxRevSpeed1 s = motorControl2 s - maxRevSpeed2 s
           \<Longrightarrow> motorControl1 s \<le> deadStop1
           \<Longrightarrow> motorControl1 (accelerateReverse s) = motorControl1 (accelerateReverse_mirrored s)"
    and "motorControl1 s - maxRevSpeed1 s \<noteq> motorControl2 s - maxRevSpeed2 s
           \<Longrightarrow> motorControl1 (accelerateReverse s) = motorControl1 (accelerateReverse_mirrored s)"
    and "motorControl1 s - maxRevSpeed1 s = motorControl2 s - maxRevSpeed2 s
           \<Longrightarrow> deadStop1 < motorControl1 s \<Longrightarrow> motorControl1 s \<le> deadStop2
           \<Longrightarrow> motorControl1 (accelerateReverse s) =
                 rampDown deadStop1 accelFactor accelFactor (maxRevSpeed1 s) (motorControl1 s) \<and>
               motorControl1 (accelerateReverse_mirrored s) =
                 rampDown deadStop1 decelFactor accelFactor (maxRevSpeed1 s) (motorControl1 s)"
proof -
  let ?m = "mirror s"
  let ?t = "fwdSnap ?m"
  let ?r1 = "motorControl1 s - maxRevSpeed1 s"
  let ?r2 = "motorControl2 s - maxRevSpeed2 s"
  let ?h = "(maxFwdSpeed1 s - motorControl1 s) - (maxFwdSpeed2 s - motorControl2 s)"
  from d have d': "?r1 - ?r2 \<noteq> 1" "?r1 - ?r2 \<noteq> - 1"
    by linarith+
  have e: "(maxFwdSpeed1 ?m - motorControl1 ?m) - (maxFwdSpeed2 ?m - motorControl2 ?m) = ?r1 - ?r2"
    by (simp add: mirror_fields)
  have t: "motorControl1 ?t = motorControl1 ?m" "motorControl2 ?t = motorControl2 ?m"
    unfolding fwdSnap_fields e using d' by simp_all
  have mt: "mirrored s ?t"
    by (simp add: mirrored_def t fwdSnap_fields(2-5) mirror_fields)
  have sd: "speedDifference ?t = \<bar>?r1 - ?r2\<bar>"
    by (simp add: fwdSnap_fields(1) mirror_fields)
  have hr: "(maxFwdSpeed1 ?t - motorControl1 ?t) - (maxFwdSpeed2 ?t - motorControl2 ?t) = ?r1 - ?r2"
    by (simp add: t fwdSnap_fields(2-5) mirror_fields)
  have hf: "?r1 = ?r2 \<Longrightarrow> ?h = 0" "?r1 > ?r2 \<Longrightarrow> ?h < 0" "?r1 < ?r2 \<Longrightarrow> ?h > 0"
    using g by (simp_all add: sgn_if split: if_splits)
  have out: "motorControl1 (accelerateReverse_mirrored s) =
               2 * deadStop1 - motorControl1 (accelerateForward ?m)"
            "motorControl2 (accelerateReverse_mirrored s) =
               2 * deadStop2 - motorControl2 (accelerateForward ?m)"
    by (simp_all add: accelerateReverse_mirrored_def mirror_fields)
  have fb: "accelerateForward ?m = fwdBoth ?t" "accelerateReverse s = revBoth s" if "?r1 = ?r2"
    using that sd hf(1) by (simp_all add: accelerateForward_blocks accelerateReverse_blocks)
  have f1: "accelerateForward ?m = fwdMotor1 ?t" "accelerateReverse s = revMotor1 s" if "?r1 > ?r2"
    using that sd hr hf(2) by (simp_all add: accelerateForward_blocks accelerateReverse_blocks)
  have f2: "accelerateForward ?m = fwdMotor2 ?t" "accelerateReverse s = revMotor2 s" if "?r1 < ?r2"
    using that sd hr hf(3) by (simp_all add: accelerateForward_blocks accelerateReverse_blocks)
  consider "?r1 = ?r2" | "?r1 > ?r2" | "?r1 < ?r2"
    by linarith
  then show "motorControl2 (accelerateReverse s) = motorControl2 (accelerateReverse_mirrored s)"
  proof cases
    case 1
    show ?thesis
      by (simp add: out fb [OF 1] mirrored_blocks(2) [OF mt])
  next
    case 2
    show ?thesis
      by (simp add: out f1 [OF 2] mirrored_blocks(4) [OF mt])
  next
    case 3
    show ?thesis
      by (simp add: out f2 [OF 3] mirrored_blocks(6) [OF mt])
  qed
  show "motorControl1 (accelerateReverse s) = motorControl1 (accelerateReverse_mirrored s)"
    if eq: "?r1 = ?r2" and le: "motorControl1 s \<le> deadStop1"
    by (simp add: out fb [OF eq] mirrored_blocks(1) [OF mt le])
  show "motorControl1 (accelerateReverse s) = motorControl1 (accelerateReverse_mirrored s)"
    if ne: "?r1 \<noteq> ?r2"
  proof (cases "?r1 > ?r2")
    case True
    show ?thesis
      by (simp add: out f1 [OF True] mirrored_blocks(3) [OF mt])
  next
    case False
    with ne have lt: "?r1 < ?r2"
      by simp
    show ?thesis
      by (simp add: out f2 [OF lt] mirrored_blocks(5) [OF mt])
  qed
  show "motorControl1 (accelerateReverse s) =
          rampDown deadStop1 accelFactor accelFactor (maxRevSpeed1 s) (motorControl1 s) \<and>
        motorControl1 (accelerateReverse_mirrored s) =
          rampDown deadStop1 decelFactor accelFactor (maxRevSpeed1 s) (motorControl1 s)"
    if eq: "?r1 = ?r2" and gt: "deadStop1 < motorControl1 s" and le: "motorControl1 s \<le> deadStop2"
  proof -
    have lt: "motorControl1 ?t < deadStop1"
      using gt by (simp add: t mirror_fields)
    have "motorControl1 (fwdBoth ?t) =
            rampUp deadStop1 decelFactor accelFactor (maxFwdSpeed1 ?t) (motorControl1 ?t)"
      using lt by (simp add: fwd_blocks_ramp(1))
    also have "\<dots> = 2 * deadStop1 -
                 rampDown deadStop1 decelFactor accelFactor (maxRevSpeed1 s) (motorControl1 s)"
      by (simp add: t fwdSnap_fields(2-5) mirror_fields ramp_defs min_def max_def)
    finally show ?thesis
      by (simp add: out fb [OF eq] revBoth_motorA_accel [OF le])
  qed
qed

text \<open>
  \<open>accelerateReverse\<close> has no convergence correction.  Run from power-up: Forward at
  throttle 0, Reverse at throttle 70, a tick without a button and Left at throttle 0
  leave the commands at 63 and 192; with the bounds of throttle 512 the distances to the
  reverse floors are 31 and 32, the mirror image of \<open>accelerateForward\<close> moves motor B
  by 1 and then steps it by 2, to 189, and \<open>accelerateReverse\<close> steps it by 2, to 190.
\<close>

lemma accelerateReverse_has_no_snap:
  "motorControl1 (run [pressing 0 512 3, pressing 70 512 4, released 0 512, pressing 0 512 5]
      (initState False)) = 63 \<and>
   motorControl2 (run [pressing 0 512 3, pressing 70 512 4, released 0 512, pressing 0 512 5]
      (initState False)) = 192 \<and>
   motorControl2 (accelerateReverse (readPots (pressing 512 512 4)
      (run [pressing 0 512 3, pressing 70 512 4, released 0 512, pressing 0 512 5]
         (initState False)))) = 190 \<and>
   motorControl2 (accelerateReverse_mirrored (readPots (pressing 512 512 4)
      (run [pressing 0 512 3, pressing 70 512 4, released 0 512, pressing 0 512 5]
         (initState False)))) = 189"
  by code_simp

section \<open>Transmissions per tick (C6)\<close>

text \<open>
  C6 says that every tick transmits exactly one byte pair, also a tick of beginner mode
  in which no button is pressed while the latch counter is still positive.  In the
  sketch such a tick calls neither \<open>buttonPressedFunction\<close> nor the idle block, so
  nothing is written: after one Forward tick in beginner mode the counter is 15, and the
  following tick without a button leaves the serial stream as it was.
\<close>

theorem C6_latched_tick_counterexample:
  "beginnerMode (loop (pressing 1023 512 3) (initState True)) \<and>
   buttonPressedIndicator (loop (pressing 1023 512 3) (initState True)) = 15 \<and>
   requested (released 1023 512) = None \<and>
   serialOut (loop (released 1023 512) (loop (pressing 1023 512 3) (initState True))) =
     serialOut (loop (pressing 1023 512 3) (initState True))"
  by code_simp

text \<open>
  C6 as amended: a tick appends at most one byte pair to the serial stream, the pair
  that is in \<open>motorByte1\<close> and \<open>motorByte2\<close> when the tick ends, and it appends it
  exactly when a button is pressed or the latch counter is zero after the latch update of
  the tick.  A tick with a request is \<open>sendCommandFunction\<close> applied to the state that
  the update of the commands for that request returns, followed by the derivation of the
  speeds.  A tick without a request whose latch counter is zero is
  \<open>sendCommandFunction\<close> applied to the state that the idle update (stop at rest,
  deceleration otherwise) returns, and the pair sent is the pair of persistent commands
  with which the tick ends.  In a tick without a request whose counter stays positive
  neither an update of the commands nor \<open>sendCommandFunction\<close> takes place: the tick
  ends in the state in which the speeds were derived, and nothing is transmitted.
\<close>

theorem C6_transmissions_per_tick:
  "serialOut (loop inp s) =
     serialOut s @
       (if requested inp = None \<and> buttonPressedIndicator (latchUpdate (readPots inp s)) \<noteq> 0
        then [] else [motorByte1 (loop inp s), motorByte2 (loop inp s)]) \<and>
   (case requested inp of
      Some p \<Rightarrow>
        loop inp s = deriveSpeeds (sendCommandFunction (motionUpdate p (pollState inp p s)))
    | None \<Rightarrow>
        (if buttonPressedIndicator (latchUpdate (readPots inp s)) = 0
         then loop inp s = sendCommandFunction (idleUpdate (deriveSpeeds (unpolledState inp s))) \<and>
              motorByte1 (loop inp s) = motorControl1 (loop inp s) \<and>
              motorByte2 (loop inp s) = motorControl2 (loop inp s)
         else loop inp s = deriveSpeeds (unpolledState inp s)))"
proof (cases "requested inp")
  case None
  let ?D = "deriveSpeeds (unpolledState inp s)"
  have l: "loop inp s = idleBlock ?D"
    by (simp add: loop_released [OF None] unpolledState_def)
  have i: "buttonPressedIndicator ?D = buttonPressedIndicator (latchUpdate (readPots inp s))"
    by (simp add: deriveSpeeds_frame unpolledState_def)
  have f: "serialOut ?D = serialOut s"
    by (simp add: deriveSpeeds_frame unpolledState_def latchUpdate_frame readPots_frame)
  have p: "buttonPinNumber (idleUpdate ?D) \<noteq> 3" "buttonPinNumber (idleUpdate ?D) \<noteq> 4"
    by (simp_all add: idleUpdate_frame deriveSpeeds_frame unpolledState_def)
  note b = sendCommandFunction_bytes_other_pin [OF p]
  show ?thesis
  proof (cases "buttonPressedIndicator (latchUpdate (readPots inp s)) = 0")
    case True
    then have "loop inp s = sendCommandFunction (idleUpdate ?D)"
      using i by (simp add: l idleBlock_idleUpdate)
    with None True b f show ?thesis
      by (simp add: sendCommandFunction_serial idleUpdate_frame)
  next
    case False
    then have "loop inp s = ?D"
      using i by (simp add: l idleBlock_idleUpdate)
    with None False f show ?thesis
      by simp
  qed
next
  case (Some p)
  then show ?thesis
    by (simp add: loop_pollState deriveSpeeds_frame sendCommandFunction_serial
        motionUpdate_frame pollState_def latchUpdate_frame readPots_frame)
qed

section \<open>Emergency stop (C7)\<close>

text \<open>
  C7: whatever the state before and whatever else is pressed, a tick in which the
  emergency stop (pin 2) is pressed sets both persistent commands to their centres, 64
  and 192, in that tick; pin 2 is polled first, so the request of the tick is the
  emergency stop, and the bytes transmitted are 64 and 192.
\<close>

theorem C7_emergency_stop:
  assumes "pinLow inp 2"
  shows "requested inp = Some 2 \<and>
         motorControl1 (loop inp s) = 64 \<and> motorControl2 (loop inp s) = 192 \<and>
         serialOut (loop inp s) = serialOut s @ [64, 192]"
proof -
  from assms have req: "requested inp = Some 2"
    by (simp add: requested_def)
  let ?s = "(latchUpdate (readPots inp s))
              \<lparr>buttonPinNumber := 2,
               buttonPressedIndicator := (if beginnerMode s then beginnerModeDelay else 1)\<rparr>"
  let ?m = "motionUpdate 2 ?s"
  have l: "loop inp s = deriveSpeeds (sendCommandFunction ?m)"
    using loop_pressed [OF req, of s] by (simp add: buttonPressedFunction_def)
  have m: "motorControl1 ?m = 64" "motorControl2 ?m = 192"
    by (simp_all add: motionUpdate_stop params)
  have c: "motorControl1 (clampCommands ?m) = 64" "motorControl2 (clampCommands ?m) = 192"
    by (simp_all add: clampCommands_motors m)
  have "buttonPinNumber (clampCommands ?m) = 2"
    by (simp add: clampCommands_frame motionUpdate_frame)
  then have b: "motorByte1 (trimBlock (clampCommands ?m)) = 64"
               "motorByte2 (trimBlock (clampCommands ?m)) = 192"
    using trimBlock_bytes_other_pin [of "clampCommands ?m"] by (simp_all add: c byte_def)
  have "serialOut (sendCommandFunction ?m) = serialOut s @ [64, 192]"
    by (simp add: sendCommandFunction_def serialWrite_def b trimBlock_frame clampCommands_frame
        motionUpdate_frame latchUpdate_frame readPots_frame)
  with l req m show ?thesis
    by (simp add: deriveSpeeds_frame sendCommandFunction_motors)
qed

text \<open>
  An instance: two Forward ticks from power-up leave the commands at 68 and 196; a tick
  with both the emergency stop and Forward pressed resets them to 64 and 192.
\<close>

theorem C7_emergency_stop_witness:
  "pinLow \<lparr>analogA0 = 1023, analogA2 = 512, pinLow = (\<lambda>p. p = 2 \<or> p = 3)\<rparr> 2 \<and>
   pinLow \<lparr>analogA0 = 1023, analogA2 = 512, pinLow = (\<lambda>p. p = 2 \<or> p = 3)\<rparr> 3 \<and>
   motorControl1 (run [pressing 1023 512 3, pressing 1023 512 3] (initState False)) = 68 \<and>
   motorControl2 (run [pressing 1023 512 3, pressing 1023 512 3] (initState False)) = 196 \<and>
   motorControl1 (loop \<lparr>analogA0 = 1023, analogA2 = 512, pinLow = (\<lambda>p. p = 2 \<or> p = 3)\<rparr>
      (run [pressing 1023 512 3, pressing 1023 512 3] (initState False))) = 64 \<and>
   motorControl2 (loop \<lparr>analogA0 = 1023, analogA2 = 512, pinLow = (\<lambda>p. p = 2 \<or> p = 3)\<rparr>
      (run [pressing 1023 512 3, pressing 1023 512 3] (initState False))) = 192"
proof -
  let ?inp = "\<lparr>analogA0 = 1023, analogA2 = 512, pinLow = (\<lambda>p. p = 2 \<or> p = 3)\<rparr>"
  let ?S = "run [pressing 1023 512 3, pressing 1023 512 3] (initState False)"
  have p: "pinLow ?inp 2" "pinLow ?inp 3"
    by simp_all
  have s: "motorControl1 ?S = 68" "motorControl2 ?S = 196"
    by code_simp+
  from C7_emergency_stop [OF p(1), of ?S] p s show ?thesis
    by simp
qed

section \<open>Deceleration (C8)\<close>

text \<open>
  C8: in ticks without a request (no button pressed, no latched request pending) each
  persistent command moves towards its centre by the decel increment 4, each motor on
  its own, and a step that would pass the centre stops on it.  Stated for any number of
  such ticks in a row, from any reachable state: after \<open>n\<close> ticks motor A is \<open>4 * n\<close>
  closer to 64, motor B \<open>4 * n\<close> closer to 192, neither beyond its centre.  From motor A
  at 100 the commands are 100, 96, 92, ..., 68, 64 and then 64 for ever.
\<close>

theorem C8_idle_deceleration:
  assumes "reachable s"
    and "\<forall>inp \<in> set inps. requested inp = None"
    and "beginnerMode s \<longrightarrow> buttonPressedIndicator s = 0 \<or> buttonPressedIndicator s = 1"
  shows "motorControl1 (run inps s) =
           stepToward 64 (4 * int (length inps)) (motorControl1 s) \<and>
         motorControl2 (run inps s) =
           stepToward 192 (4 * int (length inps)) (motorControl2 s) \<and>
         (motorControl1 s = 100 \<longrightarrow>
            motorControl1 (run inps s) = max 64 (100 - 4 * int (length inps)))"
proof -
  have wr: "wireRange s"
    using assms(1) by (rule reachable_wire_range)
  have im: "idleMode s"
    using assms(3) by (simp add: idleMode_def)
  from run_idle [OF wr im assms(2)]
  show ?thesis
    by (simp add: params stepToward_def)
qed

text \<open>
  An instance: 18 Forward ticks from power-up bring motor A to 100 and motor B to 228;
  the following ticks without a button give 96, 92, ..., 68, 64, 64, 64 for motor A.
\<close>

theorem C8_idle_deceleration_witness:
  "reachable (run (replicate 18 (pressing 1023 512 3)) (initState False)) \<and>
   motorControl1 (run (replicate 18 (pressing 1023 512 3)) (initState False)) = 100 \<and>
   motorControl2 (run (replicate 18 (pressing 1023 512 3)) (initState False)) = 228 \<and>
   map (\<lambda>n. motorControl1 (run (replicate n (released 1023 512))
               (run (replicate 18 (pressing 1023 512 3)) (initState False))))
     [0, 1, 2, 3, 4, 5, 6, 7, 8, 9, 10, 11] =
     [100, 96, 92, 88, 84, 80, 76, 72, 68, 64, 64, 64] \<and>
   motorControl2 (run (replicate 3 (released 1023 512))
     (run (replicate 18 (pressing 1023 512 3)) (initState False))) = 216"
proof -
  let ?S = "run (replicate 18 (pressing 1023 512 3)) (initState False)"
  have v: "list_all validInputs (replicate 18 (pressing 1023 512 3))"
    by (simp add: list_all_iff validInputs_def pressing_def)
  have r: "reachable ?S"
    by (rule reachable_run [OF reachable.init v])
  have s: "motorControl1 ?S = 100" "motorControl2 ?S = 228" "\<not> beginnerMode ?S"
    by code_simp+
  have q: "\<forall>inp \<in> set (replicate n (released 1023 512)). requested inp = None" for n
    by (simp add: requested_def released_def)
  have i: "beginnerMode ?S \<longrightarrow> buttonPressedIndicator ?S = 0 \<or> buttonPressedIndicator ?S = 1"
    using s(3) by simp
  have "motorControl1 (run (replicate n (released 1023 512)) ?S) = max 64 (100 - 4 * int n) \<and>
        motorControl2 (run (replicate n (released 1023 512)) ?S) = stepToward 192 (4 * int n) 228" for n
    using C8_idle_deceleration [OF r q [of n] i] s(1,2) by simp
  then show ?thesis
    using r s(1,2) by (simp add: stepToward_def)
qed

section \<open>Trim is not persisted (C9)\<close>

text \<open>
  C9: the trim block of \<open>sendCommandFunction\<close> writes the two emitted bytes only; both
  persistent commands are after it what they were before it, for every state and every
  trim value.  Hence the persistent commands \<open>sendCommandFunction\<close> leaves do not depend
  on the trim at all, and no correction is carried into the next tick.
\<close>

theorem C9_trim_not_persisted:
  "motorControl1 (trimBlock s) = motorControl1 s \<and>
   motorControl2 (trimBlock s) = motorControl2 s \<and>
   motorControl1 (sendCommandFunction (s\<lparr>trimAdjustment := t\<rparr>)) =
     motorControl1 (sendCommandFunction s) \<and>
   motorControl2 (sendCommandFunction (s\<lparr>trimAdjustment := t\<rparr>)) =
     motorControl2 (sendCommandFunction s)"
  by (simp add: trimBlock_motors sendCommandFunction_motors)

section \<open>The two encodings of the direction (C10)\<close>

text \<open>
  C10: \<open>direction1\<close> is set to the characters \<open>'1'\<close> or \<open>'0'\<close> (49 or 48), \<open>direction2\<close>
  to the character \<open>'1'\<close> (49) or the integer 0.  So in every reachable state in which
  both commands are below their centres, \<open>direction1\<close> is 48 and \<open>direction2\<close> is 0, the
  two differ, and a Left or Right tick that finds equal magnitudes runs the block for
  differing directions (\<open>leftSpin\<close>, \<open>rightSpin\<close>), not the block for straight motion.
\<close>

theorem C10_reverse_directions_differ:
  assumes "reachable s" "motorControl1 s < 64" "motorControl2 s < 192"
  shows "direction1 s = 48 \<and> direction2 s = 0 \<and> direction1 s \<noteq> direction2 s \<and>
         (\<forall>inp. validInputs inp \<and> rawSpeed1 s = rawSpeed2 s \<longrightarrow>
            (requested inp = Some 5 \<longrightarrow>
               motionUpdate 5 (pollState inp 5 s) = leftSpin (pollState inp 5 s) \<and>
               loop inp s = deriveSpeeds (sendCommandFunction (leftSpin (pollState inp 5 s)))) \<and>
            (requested inp = Some 6 \<longrightarrow>
               motionUpdate 6 (pollState inp 6 s) = rightSpin (pollState inp 6 s) \<and>
               loop inp s = deriveSpeeds (sendCommandFunction (rightSpin (pollState inp 6 s)))))"
proof -
  have wr: "wireRange s"
    using assms(1) by (rule reachable_wire_range)
  have d: "direction1 s = 48" "direction2 s = 0"
    using reachable_reverseDirs [OF assms(1)] assms(2,3) by (simp_all add: reverseDirs_def params)
  have nz: "motorControl1 (pollState inp p s) \<noteq> 0" "motorControl2 (pollState inp p s) \<noteq> 0" for inp p
    using wr by (simp_all add: pollState_fields wireRange_def)
  have left: "motionUpdate 5 (pollState inp 5 s) = leftSpin (pollState inp 5 s)"
    if "rawSpeed1 s = rawSpeed2 s" for inp
    using that d
    by (simp add: motionUpdate_pins [OF nz] leftButtonPressed_blocks pollState_fields)
  have right: "motionUpdate 6 (pollState inp 6 s) = rightSpin (pollState inp 6 s)"
    if "rawSpeed1 s = rawSpeed2 s" "validInputs inp" for inp
    using that d assms(2) pollState_bounds(1) [OF that(2), of 6 s]
    by (simp add: motionUpdate_pins [OF nz] rightButtonPressed_blocks pollState_fields
        strictBounds_def params)
  show ?thesis
    using d left right by (auto simp: loop_pollState)
qed


text \<open>
  An instance: one Reverse tick from power-up leaves the commands at 62 and 190 with
  equal magnitudes 2; the Left tick that follows runs \<open>leftSpin\<close> and gives 60 and 194
  (the block for straight motion would have left motor A at 62).
\<close>

theorem C10_reverse_directions_differ_witness:
  "reachable (run [pressing 1023 512 4] (initState False)) \<and>
   motorControl1 (run [pressing 1023 512 4] (initState False)) = 62 \<and>
   motorControl2 (run [pressing 1023 512 4] (initState False)) = 190 \<and>
   direction1 (run [pressing 1023 512 4] (initState False)) = 48 \<and>
   direction2 (run [pressing 1023 512 4] (initState False)) = 0 \<and>
   rawSpeed1 (run [pressing 1023 512 4] (initState False)) =
     rawSpeed2 (run [pressing 1023 512 4] (initState False)) \<and>
   loop (pressing 1023 512 5) (run [pressing 1023 512 4] (initState False)) =
     deriveSpeeds (sendCommandFunction (leftSpin
       (pollState (pressing 1023 512 5) 5 (run [pressing 1023 512 4] (initState False))))) \<and>
   motorControl1 (loop (pressing 1023 512 5) (run [pressing 1023 512 4] (initState False))) = 60 \<and>
   motorControl2 (loop (pressing 1023 512 5) (run [pressing 1023 512 4] (initState False))) = 194"
proof -
  let ?S = "run [pressing 1023 512 4] (initState False)"
  let ?inp = "pressing 1023 512 5"
  have r: "reachable ?S"
    by (rule reachable_run [OF reachable.init]) (simp add: validInputs_def pressing_def)
  have s: "motorControl1 ?S = 62" "motorControl2 ?S = 190" "rawSpeed1 ?S = rawSpeed2 ?S"
    by code_simp+
  have v: "validInputs ?inp" "requested ?inp = Some 5"
    by (simp_all add: validInputs_def pressing_def requested_def)
  have m: "motorControl1 (loop ?inp ?S) = 60" "motorControl2 (loop ?inp ?S) = 194"
    by code_simp+
  from C10_reverse_directions_differ [of ?S] r s v m show ?thesis
    by simp
qed

end
